theory Spec2Isabelle
  imports Main "HOL-Library.Word"
begin

section \<open>Zone manager of a zoned block device: fs/zbd\_zenfs.cc\<close>

text \<open>
  A shallow embedding of the zone manager. Byte offsets and capacities are the
  64-bit unsigned integers of the source, the size of an append is a 32-bit unsigned
  integer and the return value of a backend write is a 32-bit signed integer.
  The device backend is an external collaborator: its answers are parameters of the model.
\<close>

subsection \<open>Status codes and outcomes\<close>

text \<open>The codes of \<open>IOStatus\<close> that the zone manager produces or passes on.\<close>

datatype IOStatus = OK | NoSpace | IOError | Corruption | InvalidArgument | NotSupported

definition ok :: "IOStatus \<Rightarrow> bool" where
  "ok s = (s = OK)"

text \<open>
  What a call does. \<open>Returns\<close> carries the results. \<open>Blocked\<close> is a call that, on the
  state it was given, waits on the condition variable or spins for an empty zone: it
  returns only after another thread has changed the state. \<open>Undefined\<close> is undefined
  behaviour of the source (a vector index out of range, a null pointer dereferenced).
  \<open>Aborted\<close> is a failed \<open>assert\<close> or \<open>exit(1)\<close>. \<open>Unanswered\<close> is a backend write for
  which the model was given no answer.
\<close>

datatype 'a outcome = Returns 'a | Blocked | Undefined | Aborted | Unanswered

fun obind :: "'a outcome \<Rightarrow> ('a \<Rightarrow> 'b outcome) \<Rightarrow> 'b outcome" where
  "obind (Returns x) f = f x"
| "obind Blocked f = Blocked"
| "obind Undefined f = Undefined"
| "obind Aborted f = Aborted"
| "obind Unanswered f = Unanswered"

subsection \<open>Zones\<close>

text \<open>
  \<open>Env::WriteLifeTimeHint\<close> is an enumeration of the key-value engine, but the source
  casts arbitrary integers to it (\<open>i + lifetime_begin_\<close>, \<open>8\<close>, \<open>3 + 2\<close>), so a lifetime
  is an integer here.
\<close>

definition WLTH_NOT_SET :: int where "WLTH_NOT_SET = 0"
definition WLTH_NONE :: int where "WLTH_NONE = 1"
definition WLTH_SHORT :: int where "WLTH_SHORT = 2"
definition WLTH_MEDIUM :: int where "WLTH_MEDIUM = 3"
definition WLTH_LONG :: int where "WLTH_LONG = 4"
definition WLTH_EXTREME :: int where "WLTH_EXTREME = 5"

record Zone =
  start :: "64 word"
  max_capacity :: "64 word"
  capacity :: "64 word"
  wp :: "64 word"
  used_capacity :: "64 word"
  lifetime :: int
  busy :: bool
  useinlevelzone :: bool

text \<open>
  The answers of the device backend: \<open>be_Reset\<close> and \<open>be_Finish\<close> are asked with the
  start offset of a zone; a reset reports a status, whether the zone went offline and
  its new maximum capacity.
\<close>

record Backend =
  be_Reset :: "64 word \<Rightarrow> IOStatus \<times> bool \<times> 64 word"
  be_Finish :: "64 word \<Rightarrow> IOStatus"
  be_ZoneSize :: "64 word"
  be_BlockSize :: "32 word"

text \<open>
  \<open>Zone::Zone\<close>, from the start, maximum capacity, write pointer and writable flag that
  the backend reports for the zone.
\<close>

definition Zone_new :: "64 word \<Rightarrow> 64 word \<Rightarrow> 64 word \<Rightarrow> bool \<Rightarrow> Zone" where
  "Zone_new st mc w writable =
     \<lparr> start = st, max_capacity = mc,
       capacity = (if writable then mc - (w - st) else 0),
       wp = w, used_capacity = 0, lifetime = WLTH_NOT_SET,
       busy = False, useinlevelzone = False \<rparr>"

definition IsUsed :: "Zone \<Rightarrow> bool" where
  "IsUsed z = (used_capacity z > 0)"

definition GetCapacityLeft :: "Zone \<Rightarrow> 64 word" where
  "GetCapacityLeft z = capacity z"

definition IsFull :: "Zone \<Rightarrow> bool" where
  "IsFull z = (capacity z = 0)"

definition IsEmpty :: "Zone \<Rightarrow> bool" where
  "IsEmpty z = (wp z = start z)"

definition IsBusy :: "Zone \<Rightarrow> bool" where
  "IsBusy z = busy z"

text \<open>
  Modelled from the spec: \<open>Zone::Acquire\<close> and \<open>Zone::Release\<close> are declared in the
  header zbd\_zenfs.h, which is not among the sources. The specification gives them:
  they atomically set and clear \<open>busy\<close>; \<open>Acquire\<close> returns false if the zone is already
  busy, \<open>Release\<close> returns false if it is not busy.
\<close>

definition Acquire :: "Zone \<Rightarrow> bool \<times> Zone" where
  "Acquire z = (if busy z then (False, z) else (True, z\<lparr>busy := True\<rparr>))"

definition Release :: "Zone \<Rightarrow> bool \<times> Zone" where
  "Release z = (if busy z then (True, z\<lparr>busy := False\<rparr>) else (False, z))"

text \<open>\<open>Zone::CheckRelease\<close>: its \<open>assert(false)\<close> aborts when the release fails.\<close>

definition CheckRelease :: "Zone \<Rightarrow> (IOStatus \<times> Zone) outcome" where
  "CheckRelease z =
     (case Release z of
        (False, z') \<Rightarrow> Aborted
      | (True, z') \<Rightarrow> Returns (OK, z'))"

text \<open>\<open>Zone::Reset\<close>.\<close>

definition Reset :: "Backend \<Rightarrow> Zone \<Rightarrow> (IOStatus \<times> Zone) outcome" where
  "Reset be z =
     (if IsUsed z \<or> \<not> IsBusy z then Aborted
      else
        (case be_Reset be (start z) of
           (ios, offline, new_max) \<Rightarrow>
             if ios \<noteq> OK then Returns (ios, z)
             else
               let z1 = (if offline then z\<lparr>capacity := 0\<rparr>
                         else z\<lparr>capacity := new_max, max_capacity := new_max\<rparr>)
               in Returns (OK, z1\<lparr>wp := start z1, lifetime := WLTH_NOT_SET\<rparr>)))"

text \<open>\<open>Zone::Finish\<close>.\<close>

definition Finish :: "Backend \<Rightarrow> Zone \<Rightarrow> (IOStatus \<times> Zone) outcome" where
  "Finish be z =
     (if \<not> IsBusy z then Aborted
      else
        (let ios = be_Finish be (start z) in
         if ios \<noteq> OK then Returns (ios, z)
         else Returns (OK, z\<lparr>capacity := 0, wp := start z + be_ZoneSize be\<rparr>)))"

text \<open>
  \<open>Zone::Append\<close>. The list \<open>rs\<close> holds what the backend returns to the successive
  \<open>Write\<close> calls of the loop. The result carries the trace of the writes issued, each
  with the length and offset it was asked with and the value it returned. The metrics
  and the byte counter of the device are not modelled.
\<close>

type_synonym write_call = "32 word \<times> 64 word \<times> 32 word"

fun Append_loop :: "Zone \<Rightarrow> 32 word \<Rightarrow> 32 word list \<Rightarrow> (IOStatus \<times> Zone \<times> write_call list) outcome" where
  "Append_loop z left [] = (if left = 0 then Returns (OK, z, []) else Unanswered)"
| "Append_loop z left (ret # rs) =
     (if left = 0 then Returns (OK, z, [])
      else if sint ret < 0 then Returns (IOError, z, [(left, wp z, ret)])
      else
        obind (Append_loop (z\<lparr>wp := wp z + scast ret, capacity := capacity z - scast ret\<rparr>)
                 (left - ret) rs)
          (\<lambda>(ios, z', calls). Returns (ios, z', (left, wp z, ret) # calls)))"

definition Append :: "Backend \<Rightarrow> Zone \<Rightarrow> 32 word \<Rightarrow> 32 word list \<Rightarrow> (IOStatus \<times> Zone \<times> write_call list) outcome" where
  "Append be z sz rs =
     (if capacity z < ucast sz then Returns (NoSpace, z, [])
      else if be_BlockSize be = 0 then Undefined
      else if sz mod be_BlockSize be \<noteq> 0 then Aborted
      else Append_loop z sz rs)"

subsection \<open>The zoned block device\<close>

text \<open>
  The mutable members of \<open>ZonedBlockDevice\<close>. A \<open>Zone*\<close> of the source is the index of the
  zone in \<open>io_zones\<close>. A lifetime bucket, a set of zone pointers in the source, is a list
  of zone indices in ascending order without repetition: the source iterates a bucket in
  the order of the pointers, and the zones are allocated in the order of the registry.
  The token counters are atomic \<open>long\<close> integers.
\<close>

record ZonedBlockDevice =
  io_zones :: "Zone list"
  meta_zones :: "Zone list"
  level_zones :: "nat list list"
  level_active_io_zones :: "int list"
  open_io_zones :: int
  active_io_zones :: int
  zone_deferred_status :: IOStatus

text \<open>
  The members that no operation below writes: the caps that \<open>Open\<close> computes and the
  configuration. They are declared in the header zbd\_zenfs.h, which is not among the
  sources. \<open>Open\<close> assigns the caps from expressions of type \<open>unsigned int\<close> only, so
  they are 32-bit unsigned integers here.
\<close>

record Config =
  max_nr_open_io_zones :: "32 word"
  max_nr_active_io_zones :: "32 word"
  finish_threshold :: "32 word"
  lifetime_begin :: int
  diff_level_num :: nat

datatype IOType = kWAL | kOther

definition GetZoneDeferredStatus :: "ZonedBlockDevice \<Rightarrow> IOStatus" where
  "GetZoneDeferredStatus s = zone_deferred_status s"

definition SetZoneDeferredStatus :: "IOStatus \<Rightarrow> ZonedBlockDevice \<Rightarrow> ZonedBlockDevice" where
  "SetZoneDeferredStatus status s =
     (if \<not> ok (zone_deferred_status s) then s\<lparr>zone_deferred_status := status\<rparr> else s)"

text \<open>
  \<open>WaitForOpenIOZoneToken\<close>: the predicate of the wait is evaluated under the mutex and
  takes the token itself when it holds. The limit of a caller without priority is
  computed in the type of the cap, \<open>max_nr_open_io_zones_ - 1\<close> in 32-bit unsigned
  arithmetic, and then widened to \<open>long\<close>.
\<close>

definition allocator_open_limit :: "Config \<Rightarrow> bool \<Rightarrow> int" where
  "allocator_open_limit cfg prioritized =
     (if prioritized then uint (max_nr_open_io_zones cfg)
      else uint (max_nr_open_io_zones cfg - 1))"

definition WaitForOpenIOZoneToken :: "Config \<Rightarrow> bool \<Rightarrow> ZonedBlockDevice \<Rightarrow> ZonedBlockDevice outcome" where
  "WaitForOpenIOZoneToken cfg prioritized s =
     (if open_io_zones s < allocator_open_limit cfg prioritized
      then Returns (s\<lparr>open_io_zones := open_io_zones s + 1\<rparr>)
      else Blocked)"

definition GetActiveIOZoneTokenIfAvailable :: "Config \<Rightarrow> ZonedBlockDevice \<Rightarrow> bool \<times> ZonedBlockDevice" where
  "GetActiveIOZoneTokenIfAvailable cfg s =
     (if active_io_zones s < uint (max_nr_active_io_zones cfg)
      then (True, s\<lparr>active_io_zones := active_io_zones s + 1\<rparr>)
      else (False, s))"

definition PutOpenIOZoneToken :: "ZonedBlockDevice \<Rightarrow> ZonedBlockDevice" where
  "PutOpenIOZoneToken s = s\<lparr>open_io_zones := open_io_zones s - 1\<rparr>"

definition PutActiveIOZoneToken :: "ZonedBlockDevice \<Rightarrow> ZonedBlockDevice" where
  "PutActiveIOZoneToken s = s\<lparr>active_io_zones := active_io_zones s - 1\<rparr>"

text \<open>
  \<open>AllocateEmptyZone\<close>: the scan of \<open>io_zones\<close>, returning the status, the index of the
  zone it holds and the zones as it leaves them.
\<close>

fun AllocateEmptyZone_scan :: "Zone list \<Rightarrow> (IOStatus \<times> nat option \<times> Zone list) outcome" where
  "AllocateEmptyZone_scan [] = Returns (OK, None, [])"
| "AllocateEmptyZone_scan (z # zs) =
     (case Acquire z of
        (True, z1) \<Rightarrow>
          if IsEmpty z1 then Returns (OK, Some 0, z1 # zs)
          else
            obind (CheckRelease z1) (\<lambda>(st, z2).
              if \<not> ok st then Returns (st, None, z2 # zs)
              else obind (AllocateEmptyZone_scan zs) (\<lambda>(st', r, zs').
                     Returns (st', map_option Suc r, z2 # zs')))
      | (False, z1) \<Rightarrow>
          obind (AllocateEmptyZone_scan zs) (\<lambda>(st', r, zs').
            Returns (st', map_option Suc r, z # zs')))"

definition AllocateEmptyZone :: "ZonedBlockDevice \<Rightarrow> (IOStatus \<times> nat option \<times> ZonedBlockDevice) outcome" where
  "AllocateEmptyZone s =
     obind (AllocateEmptyZone_scan (io_zones s)) (\<lambda>(st, r, zs').
       Returns (st, r, s\<lparr>io_zones := zs'\<rparr>))"

text \<open>The insertion of a zone into a bucket: a set keeps one copy, in the order of the zones.\<close>

definition bucket_insert :: "nat \<Rightarrow> nat list \<Rightarrow> nat list" where
  "bucket_insert z b = (if z \<in> set b then b else insort z b)"

text \<open>\<open>InitialLevelZones\<close>, one round of its loop for every bucket index.\<close>

fun InitialLevelZones_loop :: "Config \<Rightarrow> nat list \<Rightarrow> ZonedBlockDevice \<Rightarrow> ZonedBlockDevice outcome" where
  "InitialLevelZones_loop cfg [] s = Returns s"
| "InitialLevelZones_loop cfg (i # is) s =
     (let s1 = s\<lparr>open_io_zones := open_io_zones s + 1, active_io_zones := active_io_zones s + 1\<rparr>
      in obind (AllocateEmptyZone s1) (\<lambda>(st, r, s2).
           if \<not> ok st then Aborted
           else
             (case r of
                None \<Rightarrow> Undefined
              | Some a \<Rightarrow>
                  if \<not> i < length (level_zones s2) \<or> \<not> i < length (level_active_io_zones s2)
                  then Undefined
                  else
                    InitialLevelZones_loop cfg is
                      (s2\<lparr>io_zones := (io_zones s2)[a := (io_zones s2 ! a)\<lparr>lifetime := int i + lifetime_begin cfg\<rparr>],
                          level_zones := (level_zones s2)[i := bucket_insert a (level_zones s2 ! i)],
                          level_active_io_zones :=
                            (level_active_io_zones s2)[i := level_active_io_zones s2 ! i + 1]\<rparr>))))"

definition InitialLevelZones :: "Config \<Rightarrow> ZonedBlockDevice \<Rightarrow> ZonedBlockDevice outcome" where
  "InitialLevelZones cfg s = InitialLevelZones_loop cfg [0 ..< diff_level_num cfg] s"

text \<open>
  \<open>EmitLevelZone\<close>. The retry loop around \<open>AllocateEmptyZone\<close> sleeps and scans again
  while there is no empty zone to take; a scan that finds none leaves the state as it
  was, so the call stays in the loop until another thread frees a zone.
\<close>

definition EmitLevelZone :: "Config \<Rightarrow> ZonedBlockDevice \<Rightarrow> nat \<Rightarrow> (bool \<times> ZonedBlockDevice) outcome" where
  "EmitLevelZone cfg s emit_zone =
     (if \<not> emit_zone < length (io_zones s) then Undefined
      else
        let level = lifetime (io_zones s ! emit_zone) - lifetime_begin cfg in
        if level < 0 \<or> \<not> nat level < length (level_zones s) then Undefined
        else
          let l = nat level;
              z1 = snd (Release ((io_zones s ! emit_zone)\<lparr>useinlevelzone := False\<rparr>));
              s1 = s\<lparr>level_zones := (level_zones s)[l := removeAll emit_zone (level_zones s ! l)],
                     io_zones := (io_zones s)[emit_zone := z1]\<rparr>
          in
            if level_zones s1 ! l = [] then
              obind (AllocateEmptyZone s1) (\<lambda>(st, r, s2).
                if \<not> ok st then Aborted
                else
                  (case r of
                     None \<Rightarrow> Blocked
                   | Some a \<Rightarrow>
                       Returns (True,
                         s2\<lparr>io_zones := (io_zones s2)[a := (io_zones s2 ! a)\<lparr>lifetime := lifetime (io_zones s2 ! emit_zone)\<rparr>],
                            level_zones := (level_zones s2)[l := bucket_insert a (level_zones s2 ! l)]\<rparr>)))
            else
              Returns (False,
                s1\<lparr>active_io_zones := active_io_zones s1 - 1,
                   open_io_zones := open_io_zones s1 - 1\<rparr>))"

text \<open>\<open>ReleaseLevelZone\<close>.\<close>

definition ReleaseLevelZone :: "Config \<Rightarrow> ZonedBlockDevice \<Rightarrow> nat \<Rightarrow> ZonedBlockDevice outcome" where
  "ReleaseLevelZone cfg s release_zone =
     (if \<not> release_zone < length (io_zones s) then Undefined
      else
        let level = lifetime (io_zones s ! release_zone) - lifetime_begin cfg in
        if level < 0 \<or> \<not> nat level < length (level_active_io_zones s) then Undefined
        else
          Returns (s\<lparr>level_active_io_zones :=
                       (level_active_io_zones s)[nat level := level_active_io_zones s ! nat level + 1],
                     io_zones := (io_zones s)[release_zone :=
                       (io_zones s ! release_zone)\<lparr>useinlevelzone := False\<rparr>]\<rparr>))"

text \<open>
  \<open>AllocateMetaZone\<close>: the scan of \<open>meta_zones\<close>. A zone that is acquired and found used
  is left acquired, as in the source.
\<close>

fun AllocateMetaZone_scan :: "Backend \<Rightarrow> Zone list \<Rightarrow> (IOStatus \<times> nat option \<times> Zone list) outcome" where
  "AllocateMetaZone_scan be [] = Returns (NoSpace, None, [])"
| "AllocateMetaZone_scan be (z # zs) =
     (case Acquire z of
        (True, z1) \<Rightarrow>
          if \<not> IsUsed z1 then
            (if \<not> IsEmpty z1 then
               obind (Reset be z1) (\<lambda>(rst, z2).
                 if \<not> ok rst then
                   obind (CheckRelease z2) (\<lambda>(st, z3).
                     if \<not> ok st then Returns (st, None, z3 # zs)
                     else obind (AllocateMetaZone_scan be zs) (\<lambda>(st', r, zs').
                            Returns (st', map_option Suc r, z3 # zs')))
                 else Returns (OK, Some 0, z2 # zs))
             else Returns (OK, Some 0, z1 # zs))
          else
            obind (AllocateMetaZone_scan be zs) (\<lambda>(st', r, zs').
              Returns (st', map_option Suc r, z1 # zs'))
      | (False, z1) \<Rightarrow>
          obind (AllocateMetaZone_scan be zs) (\<lambda>(st', r, zs').
            Returns (st', map_option Suc r, z # zs')))"

definition AllocateMetaZone :: "Backend \<Rightarrow> ZonedBlockDevice \<Rightarrow> (IOStatus \<times> nat option \<times> ZonedBlockDevice) outcome" where
  "AllocateMetaZone be s =
     obind (AllocateMetaZone_scan be (meta_zones s)) (\<lambda>(st, r, zs').
       Returns (st, r, s\<lparr>meta_zones := zs'\<rparr>))"

text \<open>
  \<open>ApplyFinishThreshold\<close>. One round of the loop touches the zone it visits and the
  counter of active zones only, so the loop runs over the zones and carries the counter.
  The product of the threshold test is computed in 64-bit unsigned arithmetic.
\<close>

definition within_finish_threshold :: "Config \<Rightarrow> Zone \<Rightarrow> bool" where
  "within_finish_threshold cfg z =
     (capacity z < (max_capacity z * ucast (finish_threshold cfg)) div 100)"

fun ApplyFinishThreshold_loop :: "Config \<Rightarrow> Backend \<Rightarrow> Zone list \<Rightarrow> int \<Rightarrow> (IOStatus \<times> Zone list \<times> int) outcome" where
  "ApplyFinishThreshold_loop cfg be [] active = Returns (OK, [], active)"
| "ApplyFinishThreshold_loop cfg be (z # zs) active =
     (case Acquire z of
        (True, z1) \<Rightarrow>
          if \<not> (IsEmpty z1 \<or> IsFull z1) \<and> within_finish_threshold cfg z1 then
            obind (Finish be z1) (\<lambda>(st, z2).
              if \<not> ok st then Returns (st, snd (Release z2) # zs, active)
              else
                obind (CheckRelease z2) (\<lambda>(st', z3).
                  if \<not> ok st' then Returns (st', z3 # zs, active)
                  else obind (ApplyFinishThreshold_loop cfg be zs (active - 1)) (\<lambda>(st'', zs', active').
                         Returns (st'', z3 # zs', active'))))
          else
            obind (CheckRelease z1) (\<lambda>(st', z3).
              if \<not> ok st' then Returns (st', z3 # zs, active)
              else obind (ApplyFinishThreshold_loop cfg be zs active) (\<lambda>(st'', zs', active').
                     Returns (st'', z3 # zs', active')))
      | (False, z1) \<Rightarrow>
          obind (ApplyFinishThreshold_loop cfg be zs active) (\<lambda>(st'', zs', active').
            Returns (st'', z # zs', active')))"

definition ApplyFinishThreshold :: "Config \<Rightarrow> Backend \<Rightarrow> ZonedBlockDevice \<Rightarrow> (IOStatus \<times> ZonedBlockDevice) outcome" where
  "ApplyFinishThreshold cfg be s =
     (if finish_threshold cfg = 0 then Returns (OK, s)
      else
        obind (ApplyFinishThreshold_loop cfg be (io_zones s) (active_io_zones s)) (\<lambda>(st, zs', active').
          Returns (st, s\<lparr>io_zones := zs', active_io_zones := active'\<rparr>)))"

text \<open>
  Modelled from the spec: \<open>IsLevelZone\<close> is declared in the header zbd\_zenfs.h, which is
  not among the sources. The specification says of the zone that \<open>ResetUnusedIOZones\<close>
  has reset: if it was in a lifetime bucket, it is emitted via \<open>EmitLevelZone\<close>.
\<close>

definition IsLevelZone :: "ZonedBlockDevice \<Rightarrow> nat \<Rightarrow> bool" where
  "IsLevelZone s z = (\<exists>b \<in> set (level_zones s). z \<in> set b)"

text \<open>
  \<open>ResetUnusedIOZones\<close>. Emitting a zone may acquire another zone of \<open>io_zones\<close>, so the
  loop runs over the indices and reads each zone from the current state.
\<close>

fun ResetUnusedIOZones_loop :: "Config \<Rightarrow> Backend \<Rightarrow> nat list \<Rightarrow> ZonedBlockDevice \<Rightarrow> (IOStatus \<times> ZonedBlockDevice) outcome" where
  "ResetUnusedIOZones_loop cfg be [] s = Returns (OK, s)"
| "ResetUnusedIOZones_loop cfg be (i # is) s =
     (case Acquire (io_zones s ! i) of
        (True, z1) \<Rightarrow>
          if \<not> IsEmpty z1 \<and> \<not> IsUsed z1 then
            (let full = IsFull z1 in
             obind (Reset be z1) (\<lambda>(reset_status, z2).
               obind (CheckRelease z2) (\<lambda>(release_status, z3).
                 let s1 = s\<lparr>io_zones := (io_zones s)[i := z3]\<rparr> in
                 if \<not> ok reset_status then Returns (reset_status, s1)
                 else if \<not> ok release_status then Returns (release_status, s1)
                 else if \<not> full then
                   (if IsLevelZone s1 i then
                      obind (EmitLevelZone cfg s1 i) (\<lambda>(replaced, s2).
                        ResetUnusedIOZones_loop cfg be is s2)
                    else ResetUnusedIOZones_loop cfg be is (PutActiveIOZoneToken s1))
                 else ResetUnusedIOZones_loop cfg be is s1)))
          else
            obind (CheckRelease z1) (\<lambda>(release_status, z3).
              let s1 = s\<lparr>io_zones := (io_zones s)[i := z3]\<rparr> in
              if \<not> ok release_status then Returns (release_status, s1)
              else ResetUnusedIOZones_loop cfg be is s1)
      | (False, z1) \<Rightarrow> ResetUnusedIOZones_loop cfg be is s)"

definition ResetUnusedIOZones :: "Config \<Rightarrow> Backend \<Rightarrow> ZonedBlockDevice \<Rightarrow> (IOStatus \<times> ZonedBlockDevice) outcome" where
  "ResetUnusedIOZones cfg be s = ResetUnusedIOZones_loop cfg be [0 ..< length (io_zones s)] s"

text \<open>
  \<open>AllocateIOZone\<close>. The lifetime that the allocator works with, after the rewrite of a
  hint below \<open>WLTH_SHORT\<close>:
\<close>

definition effective_lifetime :: "Config \<Rightarrow> int \<Rightarrow> 64 word \<Rightarrow> int" where
  "effective_lifetime cfg file_lifetime file_id =
     (if file_lifetime < WLTH_SHORT
      then (if file_id = 5 then lifetime_begin cfg else 8)
      else file_lifetime)"

text \<open>
  The part of \<open>AllocateIOZone\<close> that runs under the mutex, from the computation of the
  bucket index on. It returns the status, the zone handed out and the state. The wait
  on the condition variable is a call that is \<open>Blocked\<close> when its predicate is false.
  The logging call of the first branch dereferences the zone found, which is a null
  pointer when every zone of the bucket is leased.
\<close>

definition AllocateIOZone_locked :: "Config \<Rightarrow> ZonedBlockDevice \<Rightarrow> int \<Rightarrow> (IOStatus \<times> nat option \<times> ZonedBlockDevice) outcome" where
  "AllocateIOZone_locked cfg s file_lifetime =
     (let level = file_lifetime - lifetime_begin cfg in
      if level < 0 \<or> \<not> nat level < length (level_active_io_zones s) \<or> \<not> nat level < length (level_zones s)
      then Undefined
      else
        let l = nat level in
        if \<not> (level_active_io_zones s ! l > 0 \<or> open_io_zones s < uint (max_nr_open_io_zones cfg))
        then Blocked
        else if level_active_io_zones s ! l > 0 then
          (let s1 = s\<lparr>level_active_io_zones := (level_active_io_zones s)[l := level_active_io_zones s ! l - 1]\<rparr>
           in case find (\<lambda>z. \<not> useinlevelzone (io_zones s1 ! z)) (level_zones s1 ! l) of
                None \<Rightarrow> Undefined
              | Some z \<Rightarrow>
                  if \<not> IsBusy (io_zones s1 ! z) then Aborted
                  else Returns (OK, Some z,
                         s1\<lparr>io_zones := (io_zones s1)[z := (io_zones s1 ! z)\<lparr>useinlevelzone := True\<rparr>]\<rparr>))
        else
          (let s1 = s\<lparr>open_io_zones := open_io_zones s + 1, active_io_zones := active_io_zones s + 1\<rparr>
           in obind (AllocateEmptyZone s1) (\<lambda>(st, r, s2).
                if \<not> ok st then
                  Returns (st, None,
                    s2\<lparr>active_io_zones := active_io_zones s2 - 1, open_io_zones := open_io_zones s2 - 1\<rparr>)
                else
                  (case r of
                     None \<Rightarrow> Blocked
                   | Some z \<Rightarrow>
                       if \<not> IsBusy (io_zones s2 ! z) then Aborted
                       else Returns (OK, Some z,
                              s2\<lparr>io_zones := (io_zones s2)[z := (io_zones s2 ! z)\<lparr>lifetime := file_lifetime, useinlevelzone := True\<rparr>],
                                 level_zones := (level_zones s2)[l := bucket_insert z (level_zones s2 ! l)]\<rparr>)))))"

text \<open>
  \<open>AllocateIOZone\<close> past its check of the deferred error: the maintenance of a call
  that is not for the write-ahead log, then the part under the mutex. \<open>*out_zone\<close> is
  not written on an early return.
\<close>

definition AllocateIOZone_checked :: "Config \<Rightarrow> Backend \<Rightarrow> ZonedBlockDevice \<Rightarrow> int \<Rightarrow> IOType \<Rightarrow> 64 word \<Rightarrow> (IOStatus \<times> nat option \<times> ZonedBlockDevice) outcome" where
  "AllocateIOZone_checked cfg be s file_lifetime io_type file_id =
     (if io_type \<noteq> kWAL then
        obind (ApplyFinishThreshold cfg be s) (\<lambda>(st1, s1).
          if \<not> ok st1 then Returns (st1, None, s1)
          else
            obind (ResetUnusedIOZones cfg be s1) (\<lambda>(st2, s2).
              if \<not> ok st2 then Returns (st2, None, s2)
              else AllocateIOZone_locked cfg s2 (effective_lifetime cfg file_lifetime file_id)))
      else AllocateIOZone_locked cfg s (effective_lifetime cfg file_lifetime file_id))"

definition AllocateIOZone :: "Config \<Rightarrow> Backend \<Rightarrow> ZonedBlockDevice \<Rightarrow> int \<Rightarrow> IOType \<Rightarrow> 64 word \<Rightarrow> (IOStatus \<times> nat option \<times> ZonedBlockDevice) outcome" where
  "AllocateIOZone cfg be s file_lifetime io_type file_id =
     (let st = GetZoneDeferredStatus s in
      if \<not> ok st then Returns (st, None, s)
      else AllocateIOZone_checked cfg be s file_lifetime io_type file_id)"

subsection \<open>Sequences of token operations\<close>

text \<open>The operations that charge and refund tokens, and the run of a sequence of them.\<close>

datatype operation =
    OpAllocateIOZone int IOType "64 word"
  | OpInitialLevelZones
  | OpEmitLevelZone nat
  | OpWaitForOpenIOZoneToken bool
  | OpGetActiveIOZoneTokenIfAvailable
  | OpPutOpenIOZoneToken
  | OpPutActiveIOZoneToken

fun perform :: "Config \<Rightarrow> Backend \<Rightarrow> operation \<Rightarrow> ZonedBlockDevice \<Rightarrow> ZonedBlockDevice outcome" where
  "perform cfg be (OpAllocateIOZone file_lifetime io_type file_id) s =
     obind (AllocateIOZone cfg be s file_lifetime io_type file_id) (\<lambda>(st, out_zone, s'). Returns s')"
| "perform cfg be OpInitialLevelZones s = InitialLevelZones cfg s"
| "perform cfg be (OpEmitLevelZone z) s =
     obind (EmitLevelZone cfg s z) (\<lambda>(replaced, s'). Returns s')"
| "perform cfg be (OpWaitForOpenIOZoneToken prioritized) s = WaitForOpenIOZoneToken cfg prioritized s"
| "perform cfg be OpGetActiveIOZoneTokenIfAvailable s = Returns (snd (GetActiveIOZoneTokenIfAvailable cfg s))"
| "perform cfg be OpPutOpenIOZoneToken s = Returns (PutOpenIOZoneToken s)"
| "perform cfg be OpPutActiveIOZoneToken s = Returns (PutActiveIOZoneToken s)"

fun run :: "Config \<Rightarrow> Backend \<Rightarrow> operation list \<Rightarrow> ZonedBlockDevice \<Rightarrow> ZonedBlockDevice outcome" where
  "run cfg be [] s = Returns s"
| "run cfg be (op # ops) s = obind (perform cfg be op s) (run cfg be ops)"

subsection \<open>Notions used to state the properties\<close>

text \<open>
  The backend honours the contract of a write when no \<open>Write\<close> of the loop returns more
  bytes than it was asked to write. \<open>honours left rs\<close> says so of the answers \<open>rs\<close> to a
  loop that starts with \<open>left\<close> bytes to place.
\<close>

fun honours :: "32 word \<Rightarrow> 32 word list \<Rightarrow> bool" where
  "honours left [] = True"
| "honours left (ret # rs) =
     (left = 0 \<or> sint ret < 0 \<or> (ret \<le> left \<and> honours (left - ret) rs))"

text \<open>The bytes that the writes of a trace reported as written.\<close>

definition bytes_written :: "write_call list \<Rightarrow> int" where
  "bytes_written calls =
     sum_list (map (\<lambda>(len, off, ret). if sint ret < 0 then 0 else sint ret) calls)"

text \<open>
  A trace is sequential from write pointer \<open>w\<close> with \<open>left\<close> bytes to place when every
  write is asked with the bytes still to place, at the write pointer as the writes
  before it have advanced it.
\<close>

fun sequential :: "64 word \<Rightarrow> 32 word \<Rightarrow> write_call list \<Rightarrow> bool" where
  "sequential w left [] = True"
| "sequential w left ((len, off, ret) # cs) =
     (len = left \<and> off = w \<and> sequential (w + scast ret) (left - ret) cs)"

text \<open>Invariant I1 of the specification, read in the natural numbers.\<close>

definition wp_in_bounds :: "Zone \<Rightarrow> bool" where
  "wp_in_bounds z =
     (unat (start z) \<le> unat (wp z) \<and> unat (wp z) \<le> unat (start z) + unat (max_capacity z))"

text \<open>
  The invariant that carries I1 through the appends: the zone lies in the 64-bit
  address space, and the bytes written and the bytes still writable together do not
  exceed the maximum capacity.
\<close>

definition zone_inv :: "Zone \<Rightarrow> bool" where
  "zone_inv z =
     (unat (start z) + unat (max_capacity z) < 2 ^ 64 \<and>
      unat (start z) \<le> unat (wp z) \<and>
      (unat (wp z) - unat (start z)) + unat (capacity z) \<le> unat (max_capacity z))"

text \<open>
  A meta zone that \<open>AllocateMetaZone\<close> can hand out: it is not busy, it holds no live
  data, and it is empty or the backend resets it.
\<close>

definition usable_meta :: "Backend \<Rightarrow> Zone \<Rightarrow> bool" where
  "usable_meta be z =
     (\<not> busy z \<and> \<not> IsUsed z \<and> (IsEmpty z \<or> fst (be_Reset be (start z)) = OK))"

text \<open>
  What \<open>AllocateMetaZone\<close> makes of the zone \<open>z\<close> it hands out: the zone is busy and
  empty, and it is the result of a reset when \<open>z\<close> was not empty.
\<close>

definition meta_taken :: "Backend \<Rightarrow> Zone \<Rightarrow> Zone \<Rightarrow> bool" where
  "meta_taken be z z' =
     (busy z' \<and> \<not> IsUsed z' \<and> IsEmpty z' \<and> start z' = start z \<and>
      (IsEmpty z \<longrightarrow> z' = z\<lparr>busy := True\<rparr>) \<and>
      (\<not> IsEmpty z \<longrightarrow> Reset be (z\<lparr>busy := True\<rparr>) = Returns (OK, z')))"

text \<open>
  A zone that \<open>ApplyFinishThreshold\<close> finishes: it can be acquired, it is neither empty
  nor full, and its capacity is below the threshold.
\<close>

definition finishable :: "Config \<Rightarrow> Zone \<Rightarrow> bool" where
  "finishable cfg z =
     (\<not> busy z \<and> \<not> (IsEmpty z \<or> IsFull z) \<and> within_finish_threshold cfg z)"

text \<open>A zone that \<open>AllocateEmptyZone\<close> takes: it can be acquired and it is empty.\<close>

definition acquirable_empty :: "Zone \<Rightarrow> bool" where
  "acquirable_empty z = (\<not> busy z \<and> IsEmpty z)"

text \<open>
  The bucket index of the zone that \<open>EmitLevelZone\<close> is called with, and the state once
  the zone is erased from its bucket, its lease flag cleared and the zone released.
\<close>

definition emit_level :: "Config \<Rightarrow> ZonedBlockDevice \<Rightarrow> nat \<Rightarrow> int" where
  "emit_level cfg s z = lifetime (io_zones s ! z) - lifetime_begin cfg"

definition emitted :: "Config \<Rightarrow> ZonedBlockDevice \<Rightarrow> nat \<Rightarrow> ZonedBlockDevice" where
  "emitted cfg s z =
     s\<lparr>level_zones := (level_zones s)[nat (emit_level cfg s z) :=
          removeAll z (level_zones s ! nat (emit_level cfg s z))],
       io_zones := (io_zones s)[z := (io_zones s ! z)\<lparr>useinlevelzone := False, busy := False\<rparr>]\<rparr>"

subsection \<open>Example data\<close>

text \<open>A busy, full zone without live data, and a backend on which its reset succeeds.\<close>

definition zone_ex :: Zone where
  "zone_ex = \<lparr> start = 4096, max_capacity = 8192, capacity = 0, wp = 12288,
       used_capacity = 0, lifetime = 4, busy = True, useinlevelzone = False \<rparr>"

definition backend_ex :: Backend where
  "backend_ex = \<lparr> be_Reset = (\<lambda>a. if a = 4096 then (OK, False, 8192) else (IOError, False, 0)),
       be_Finish = (\<lambda>a. OK), be_ZoneSize = 8192, be_BlockSize = 4096 \<rparr>"

text \<open>An open zone with 4096 bytes written and 12288 bytes left.\<close>

definition zone_open_ex :: Zone where
  "zone_open_ex = \<lparr> start = 0, max_capacity = 16384, capacity = 12288, wp = 4096,
       used_capacity = 4096, lifetime = 4, busy = True, useinlevelzone = True \<rparr>"

text \<open>
  A zone of a device whose zones are larger than their capacity: 2 GiB zones
  of 1077 MiB capacity.
\<close>

definition zns_zone :: Zone where
  "zns_zone = \<lparr> start = 0, max_capacity = 1129316352, capacity = 1129312256, wp = 4096,
       used_capacity = 4096, lifetime = 4, busy = True, useinlevelzone = False \<rparr>"

definition zns_backend :: Backend where
  "zns_backend = \<lparr> be_Reset = (\<lambda>a. (OK, False, 1129316352)),
       be_Finish = (\<lambda>a. OK), be_ZoneSize = 2147483648, be_BlockSize = 4096 \<rparr>"

text \<open>
  A device that reports 10 open and 10 active zones, of which \<open>Open\<close> reserves two, with
  six lifetime classes from 3 to 8, and its state after \<open>Open\<close>: eight empty zones for
  file data, no token taken.
\<close>

definition cfg_ex :: Config where
  "cfg_ex = \<lparr> max_nr_open_io_zones = 8, max_nr_active_io_zones = 8, finish_threshold = 20,
       lifetime_begin = 3, diff_level_num = 6 \<rparr>"

definition dev_ex :: ZonedBlockDevice where
  "dev_ex = \<lparr> io_zones = map (\<lambda>a. Zone_new a 8192 a True)
                  [0, 8192, 16384, 24576, 32768, 40960, 49152, 57344],
       meta_zones = [], level_zones = [[], [], [], [], [], []],
       level_active_io_zones = [0, 0, 0, 0, 0, 0],
       open_io_zones = 0, active_io_zones = 0, zone_deferred_status = OK \<rparr>"

text \<open>The caps of a device that reports two open zones: none is left for file data.\<close>

definition cfg_no_open_ex :: Config where
  "cfg_no_open_ex = cfg_ex\<lparr>max_nr_open_io_zones := 0\<rparr>"

text \<open>
  A run from the state after \<open>Open\<close>: the buckets are seeded, two active tokens are
  taken as the migration path takes them, and two files of lifetime class 3 ask for a
  zone one after the other.
\<close>

definition ops_ex :: "operation list" where
  "ops_ex = [OpInitialLevelZones, OpGetActiveIOZoneTokenIfAvailable, OpGetActiveIOZoneTokenIfAvailable,
     OpAllocateIOZone 3 kWAL 5, OpAllocateIOZone 3 kWAL 6]"

text \<open>Meta zones: a busy one followed by an idle one to reset, and a busy one alone.\<close>

definition meta_dev_ex :: ZonedBlockDevice where
  "meta_dev_ex = dev_ex\<lparr>meta_zones := [zone_ex, zone_ex\<lparr>busy := False\<rparr>]\<rparr>"

definition meta_busy_ex :: ZonedBlockDevice where
  "meta_busy_ex = dev_ex\<lparr>meta_zones := [zone_ex]\<rparr>"

text \<open>
  Three zones: an idle one with an eighth of its capacity left, an empty one, and a busy
  one with an eighth of its capacity left.
\<close>

definition fin_dev_ex :: ZonedBlockDevice where
  "fin_dev_ex = dev_ex\<lparr>io_zones :=
       [\<lparr> start = 0, max_capacity = 8192, capacity = 1024, wp = 7168,
           used_capacity = 7168, lifetime = 4, busy = False, useinlevelzone = False \<rparr>,
        Zone_new 8192 8192 8192 True,
        \<lparr> start = 16384, max_capacity = 8192, capacity = 1024, wp = 23552,
           used_capacity = 7168, lifetime = 5, busy = True, useinlevelzone = True \<rparr>],
     open_io_zones := 2, active_io_zones := 2\<rparr>"

text \<open>
  Two zones in the bucket of lifetime class 3, one zone in the bucket of class 4, and an
  empty zone.
\<close>

definition emit_dev_ex :: ZonedBlockDevice where
  "emit_dev_ex =
     \<lparr> io_zones =
         [\<lparr> start = 0, max_capacity = 8192, capacity = 4096, wp = 4096,
             used_capacity = 4096, lifetime = 3, busy = True, useinlevelzone = True \<rparr>,
          \<lparr> start = 8192, max_capacity = 8192, capacity = 4096, wp = 12288,
             used_capacity = 0, lifetime = 3, busy = False, useinlevelzone = False \<rparr>,
          \<lparr> start = 16384, max_capacity = 8192, capacity = 4096, wp = 20480,
             used_capacity = 0, lifetime = 4, busy = False, useinlevelzone = False \<rparr>,
          Zone_new 24576 8192 24576 True],
       meta_zones = [], level_zones = [[0, 1], [2], [], [], [], []],
       level_active_io_zones = [1, 1, 0, 0, 0, 0],
       open_io_zones = 3, active_io_zones = 3, zone_deferred_status = OK \<rparr>"



text \<open>
  A device with two idle zones, 0 and 6, in the bucket of lifetime class 3.
\<close>

definition idle_dev_ex :: ZonedBlockDevice where
  "idle_dev_ex =
     dev_ex\<lparr>io_zones := (io_zones dev_ex)
         [0 := (io_zones dev_ex ! 0)\<lparr>lifetime := 3, busy := True\<rparr>,
          6 := (io_zones dev_ex ! 6)\<lparr>lifetime := 3, busy := True\<rparr>],
       level_zones := [[0, 6], [], [], [], [], []],
       level_active_io_zones := [2, 0, 0, 0, 0, 0],
       open_io_zones := 2, active_io_zones := 2\<rparr>"

section \<open>Properties of a zone\<close>

lemma bytes_written_Nil [simp]: "bytes_written [] = 0"
  by (simp add: bytes_written_def)

lemma bytes_written_Cons [simp]:
  "bytes_written ((len, off, ret) # cs) = (if sint ret < 0 then 0 else sint ret) + bytes_written cs"
  by (simp add: bytes_written_def)

lemma sint_nonneg_uint:
  fixes r :: "32 word"
  assumes "\<not> sint r < 0"
  shows "sint r = uint r"
proof -
  have "uint r = take_bit 32 (sint r)" by (simp add: uint_sint)
  also have "\<dots> = sint r"
  proof (rule take_bit_int_eq_self)
    show "0 \<le> sint r" using assms by simp
    have "sint r < 2 ^ (LENGTH(32) - 1)" by (rule sint_lt)
    then show "sint r < 2 ^ 32" by simp
  qed
  finally show ?thesis by simp
qed

text \<open>
  What a run of the append loop leaves behind when the backend honours its contract:
  the write pointer and the capacity have moved by the bytes reported, and the status
  is \<open>OK\<close> with all bytes placed or \<open>IOError\<close> after a negative return.
\<close>

lemma Append_loop_result:
  assumes "honours left rs"
    and "Append_loop z left rs = Returns (ios, z', calls)"
  shows "z' = z\<lparr>wp := wp z + word_of_int (bytes_written calls),
                 capacity := capacity z - word_of_int (bytes_written calls)\<rparr> \<and>
         0 \<le> bytes_written calls \<and>
         (ios = OK \<and> bytes_written calls = uint left \<and>
            (\<forall>c \<in> set calls. \<not> sint (snd (snd c)) < 0) \<or>
          ios = IOError \<and> bytes_written calls < uint left \<and> calls \<noteq> [] \<and>
            sint (snd (snd (last calls))) < 0 \<and>
            (\<forall>c \<in> set (butlast calls). \<not> sint (snd (snd c)) < 0))"
  using assms
proof (induction rs arbitrary: z left ios z' calls)
  case Nil
  then show ?case by (simp split: if_splits)
next
  case (Cons ret rs)
  show ?case
  proof (cases "left = 0")
    case True
    with Cons.prems show ?thesis by simp
  next
    case nz: False
    show ?thesis
    proof (cases "sint ret < 0")
      case True
      with nz Cons.prems show ?thesis
        by (auto simp: word_greater_zero_iff uint_0_iff intro: le_neq_trans)
    next
      case nonneg: False
      let ?z1 = "z\<lparr>wp := wp z + scast ret, capacity := capacity z - scast ret\<rparr>"
      from nz nonneg Cons.prems(1) have le: "ret \<le> left" and h: "honours (left - ret) rs"
        by simp_all
      from nz nonneg Cons.prems(2) obtain calls1 where
        run: "Append_loop ?z1 (left - ret) rs = Returns (ios, z', calls1)"
        and calls: "calls = (left, wp z, ret) # calls1"
        by (cases "Append_loop ?z1 (left - ret) rs") (auto split: prod.splits)
      note IH = Cons.IH [OF h run]
      have u: "uint (left - ret) = uint left - uint ret"
        using le by (simp add: uint_minus_simple_alt)
      have s: "sint ret = uint ret" using nonneg by (rule sint_nonneg_uint)
      have sc: "(scast ret :: 64 word) = word_of_int (uint ret)"
        using s by (simp add: scast_eq)
      show ?thesis
        using IH nonneg by (auto simp: calls u s sc)
    qed
  qed
qed

text \<open>Every write of the loop is issued at the current write pointer, for the bytes still to place.\<close>

lemma Append_loop_sequential:
  assumes "Append_loop z left rs = Returns (ios, z', calls)"
  shows "sequential (wp z) left calls"
  using assms
proof (induction rs arbitrary: z left ios z' calls)
  case Nil
  then show ?case by (simp split: if_splits)
next
  case (Cons ret rs)
  let ?z1 = "z\<lparr>wp := wp z + scast ret, capacity := capacity z - scast ret\<rparr>"
  show ?case
  proof (cases "left = 0 \<or> sint ret < 0")
    case True
    with Cons.prems show ?thesis by (auto split: if_splits)
  next
    case False
    with Cons.prems obtain calls1 where
      run: "Append_loop ?z1 (left - ret) rs = Returns (ios, z', calls1)"
      and calls: "calls = (left, wp z, ret) # calls1"
      by (cases "Append_loop ?z1 (left - ret) rs") (auto split: prod.splits)
    from Cons.IH [OF run] show ?thesis by (simp add: calls)
  qed
qed

text \<open>
  The loop returns when the backend honours its contract, no write returns 0 and the
  model has an answer for every write: every round places at least one byte.
\<close>

lemma Append_loop_returns:
  assumes "honours left rs" and "\<forall>r \<in> set rs. sint r \<noteq> 0" and "unat left \<le> length rs"
  shows "\<exists>res. Append_loop z left rs = Returns res"
  using assms
proof (induction rs arbitrary: z left)
  case Nil
  then show ?case by (simp add: unat_eq_zero)
next
  case (Cons ret rs)
  let ?z1 = "z\<lparr>wp := wp z + scast ret, capacity := capacity z - scast ret\<rparr>"
  show ?case
  proof (cases "left = 0 \<or> sint ret < 0")
    case True
    then show ?thesis by auto
  next
    case False
    with Cons.prems(1) have le: "ret \<le> left" and h: "honours (left - ret) rs" by simp_all
    from Cons.prems(2) have nz: "ret \<noteq> 0" and rest: "\<forall>r \<in> set rs. sint r \<noteq> 0" by auto
    have "unat (left - ret) = unat left - unat ret" using le by (simp add: unat_sub)
    moreover have "0 < unat ret" using nz by (simp add: unat_gt_0)
    ultimately have "unat (left - ret) \<le> length rs" using Cons.prems(3) by simp
    from Cons.IH [OF h rest this, of ?z1] obtain res where
      "Append_loop ?z1 (left - ret) rs = Returns res" by blast
    with False show ?thesis by (cases res) auto
  qed
qed

text \<open>
  C2. For an append of \<open>sz\<close> bytes, a multiple of the block size of the backend: when the
  capacity is below \<open>sz\<close>, \<open>Append\<close> returns \<open>NoSpace\<close>, issues no write and leaves the
  zone as it was. Otherwise, on a backend that honours the contract of a write, every
  write is issued at the current write pointer for the bytes still to place, the write
  pointer advances and the capacity decreases by exactly the bytes the writes reported,
  \<open>OK\<close> is returned only when these are \<open>sz\<close> bytes (the write pointer has advanced by
  \<open>sz\<close>), and \<open>IOError\<close> is returned after a negative return, the write pointer standing
  where the writes accepted before it have put it. The call returns as soon as every
  write makes progress.
\<close>

theorem Append_spec:
  assumes "be_BlockSize be \<noteq> 0" and "sz mod be_BlockSize be = 0"
  shows "(capacity z < ucast sz \<longrightarrow> Append be z sz rs = Returns (NoSpace, z, [])) \<and>
         (\<not> capacity z < ucast sz \<and> honours sz rs \<longrightarrow>
            (\<forall>ios z' calls. Append be z sz rs = Returns (ios, z', calls) \<longrightarrow>
               sequential (wp z) sz calls \<and>
               z' = z\<lparr>wp := wp z + word_of_int (bytes_written calls),
                      capacity := capacity z - word_of_int (bytes_written calls)\<rparr> \<and>
               (ios = OK \<and> bytes_written calls = uint sz \<and>
                  wp z' = wp z + ucast sz \<and> capacity z' = capacity z - ucast sz \<and>
                  (\<forall>c \<in> set calls. \<not> sint (snd (snd c)) < 0) \<or>
                ios = IOError \<and> 0 \<le> bytes_written calls \<and> bytes_written calls < uint sz \<and>
                  calls \<noteq> [] \<and> sint (snd (snd (last calls))) < 0 \<and>
                  (\<forall>c \<in> set (butlast calls). \<not> sint (snd (snd c)) < 0))) \<and>
            ((\<forall>r \<in> set rs. sint r \<noteq> 0) \<and> unat sz \<le> length rs \<longrightarrow>
               (\<exists>res. Append be z sz rs = Returns res)))"
proof (intro conjI impI allI)
  assume "capacity z < ucast sz"
  then show "Append be z sz rs = Returns (NoSpace, z, [])" by (simp add: Append_def)
next
  fix ios z' calls
  assume a: "\<not> capacity z < ucast sz \<and> honours sz rs"
    and r: "Append be z sz rs = Returns (ios, z', calls)"
  from a r assms have run: "Append_loop z sz rs = Returns (ios, z', calls)"
    by (simp add: Append_def)
  from a have h: "honours sz rs" by simp
  show "sequential (wp z) sz calls" using run by (rule Append_loop_sequential)
  note res = Append_loop_result [OF h run]
  from res show "z' = z\<lparr>wp := wp z + word_of_int (bytes_written calls),
                      capacity := capacity z - word_of_int (bytes_written calls)\<rparr>" by simp
  have uc: "(word_of_int (uint sz) :: 64 word) = ucast sz" by (simp only: ucast_eq)
  from res have z': "wp z' = wp z + word_of_int (bytes_written calls)"
    "capacity z' = capacity z - word_of_int (bytes_written calls)" by simp_all
  from res have "ios = OK \<and> bytes_written calls = uint sz \<and>
            (\<forall>c \<in> set calls. \<not> sint (snd (snd c)) < 0) \<or>
          ios = IOError \<and> bytes_written calls < uint sz \<and> calls \<noteq> [] \<and>
            sint (snd (snd (last calls))) < 0 \<and>
            (\<forall>c \<in> set (butlast calls). \<not> sint (snd (snd c)) < 0)" by blast
  moreover from res have "0 \<le> bytes_written calls" by blast
  ultimately show "ios = OK \<and> bytes_written calls = uint sz \<and>
                  wp z' = wp z + ucast sz \<and> capacity z' = capacity z - ucast sz \<and>
                  (\<forall>c \<in> set calls. \<not> sint (snd (snd c)) < 0) \<or>
                ios = IOError \<and> 0 \<le> bytes_written calls \<and> bytes_written calls < uint sz \<and>
                  calls \<noteq> [] \<and> sint (snd (snd (last calls))) < 0 \<and>
                  (\<forall>c \<in> set (butlast calls). \<not> sint (snd (snd c)) < 0)"
    using z' uc by (elim disjE conjE) simp_all
next
  assume a: "\<not> capacity z < ucast sz \<and> honours sz rs"
    and p: "(\<forall>r \<in> set rs. sint r \<noteq> 0) \<and> unat sz \<le> length rs"
  from a p have "\<exists>res. Append_loop z sz rs = Returns res"
    by (intro Append_loop_returns) simp_all
  with a assms show "\<exists>res. Append be z sz rs = Returns res" by (simp add: Append_def)
qed

theorem Append_spec_witness:
  "be_BlockSize backend_ex \<noteq> 0 \<and> (8192 :: 32 word) mod be_BlockSize backend_ex = 0 \<and>
   capacity zone_open_ex < ucast (16384 :: 32 word) \<and>
   Append backend_ex zone_open_ex 16384 [4096] = Returns (NoSpace, zone_open_ex, []) \<and>
   \<not> capacity zone_open_ex < ucast (8192 :: 32 word) \<and> honours 8192 [4096, 4096] \<and>
   Append backend_ex zone_open_ex 8192 [4096, 4096] =
     Returns (OK, zone_open_ex\<lparr>wp := 12288, capacity := 4096\<rparr>,
              [(8192, 4096, 4096), (4096, 8192, 4096)]) \<and>
   honours 8192 [4096, -1] \<and>
   Append backend_ex zone_open_ex 8192 [4096, -1] =
     Returns (IOError, zone_open_ex\<lparr>wp := 8192, capacity := 8192\<rparr>,
              [(8192, 4096, 4096), (4096, 8192, -1)])"
  using Append_spec [of backend_ex 16384 zone_open_ex "[4096]"]
        Append_spec [of backend_ex 8192 zone_open_ex "[4096, 4096]"]
        Append_spec [of backend_ex 8192 zone_open_ex "[4096, -1]"]
  by (simp add: backend_ex_def zone_open_ex_def Append_def)

text \<open>
  C4. \<open>Reset\<close> of a busy zone without live data. When the backend succeeds, the write
  pointer is back at the start and the lifetime is \<open>WLTH_NOT_SET\<close>, so the zone is empty;
  a zone that is not offline has the capacity and the maximum capacity that the backend
  reported, an offline zone has capacity 0. When the backend fails, its status is
  returned and the zone is as it was.
\<close>

theorem Reset_spec:
  assumes "used_capacity z = 0" and "busy z"
    and "be_Reset be (start z) = (ios, offline, new_max)"
  shows "(ios = OK \<longrightarrow>
            (\<exists>z'. Reset be z = Returns (OK, z') \<and>
               wp z' = start z \<and> lifetime z' = WLTH_NOT_SET \<and> IsEmpty z' \<and>
               (\<not> offline \<longrightarrow> capacity z' = new_max \<and> max_capacity z' = new_max) \<and>
               (offline \<longrightarrow> capacity z' = 0 \<and> IsFull z' \<and> max_capacity z' = max_capacity z) \<and>
               start z' = start z \<and> used_capacity z' = used_capacity z \<and>
               busy z' = busy z \<and> useinlevelzone z' = useinlevelzone z)) \<and>
         (ios \<noteq> OK \<longrightarrow> Reset be z = Returns (ios, z))"
  using assms by (simp add: Reset_def IsUsed_def IsBusy_def IsEmpty_def IsFull_def Let_def)

theorem Reset_spec_witness:
  "used_capacity zone_ex = 0 \<and> busy zone_ex \<and>
   be_Reset backend_ex (start zone_ex) = (OK, False, 8192) \<and>
   Reset backend_ex zone_ex = Returns (OK, zone_ex\<lparr>capacity := 8192, wp := 4096, lifetime := 0\<rparr>) \<and>
   be_Reset backend_ex (start (zone_ex\<lparr>start := 0\<rparr>)) = (IOError, False, 0) \<and>
   Reset backend_ex (zone_ex\<lparr>start := 0\<rparr>) = Returns (IOError, zone_ex\<lparr>start := 0\<rparr>)"
  using Reset_spec [of zone_ex backend_ex OK False 8192]
        Reset_spec [of "zone_ex\<lparr>start := 0\<rparr>" backend_ex IOError False 0]
  by (simp add: zone_ex_def backend_ex_def Reset_def IsUsed_def IsBusy_def WLTH_NOT_SET_def)

text \<open>The zone invariant: it implies I1, the constructor establishes it, and the operations keep it.\<close>

lemma zone_inv_bounds: "zone_inv z \<Longrightarrow> wp_in_bounds z"
  by (auto simp: zone_inv_def wp_in_bounds_def)

lemma zone_inv_Zone_new:
  assumes "unat st \<le> unat w" and "unat w \<le> unat st + unat mc" and "unat st + unat mc < 2 ^ 64"
  shows "zone_inv (Zone_new st mc w writable)"
proof -
  have le: "st \<le> w" using assms(1) by (simp add: word_le_nat_alt)
  then have d: "unat (w - st) = unat w - unat st" by (simp add: unat_sub)
  then have "w - st \<le> mc" using assms(1,2) by (simp add: word_le_nat_alt)
  then have "unat (mc - (w - st)) = unat mc - (unat w - unat st)" using d by (simp add: unat_sub)
  then show ?thesis using assms by (auto simp: zone_inv_def Zone_new_def)
qed

lemma zone_inv_Append:
  assumes inv: "zone_inv z" and h: "honours sz rs"
    and run: "Append be z sz rs = Returns (ios, z', calls)"
  shows "zone_inv z' \<and> unat (wp z') = unat (wp z) + nat (bytes_written calls) \<and>
         (ios = OK \<longrightarrow> unat (wp z') = unat (wp z) + unat sz)"
proof (cases "capacity z < ucast sz")
  case True
  with run inv show ?thesis by (auto simp: Append_def)
next
  case False
  with run have loop: "Append_loop z sz rs = Returns (ios, z', calls)"
    by (simp add: Append_def split: if_splits)
  note res = Append_loop_result [OF h loop]
  define b where "b = bytes_written calls"
  from res have b0: "0 \<le> b" and z': "z' = z\<lparr>wp := wp z + word_of_int b, capacity := capacity z - word_of_int b\<rparr>"
    and bsz: "b \<le> uint sz" and okb: "ios = OK \<longrightarrow> b = uint sz"
    by (auto simp: b_def)
  have "uint (ucast sz :: 64 word) = uint sz" by (rule uint_up_ucast) (simp add: is_up)
  with False have szcap: "uint sz \<le> uint (capacity z)" by (simp add: word_less_def not_less)
  with bsz have "nat b \<le> nat (uint (capacity z))" by (intro nat_mono) simp
  then have bcap: "nat b \<le> unat (capacity z)" by simp
  from inv have fit: "unat (start z) + unat (max_capacity z) < 2 ^ 64"
    and sw: "unat (start z) \<le> unat (wp z)"
    and sum: "(unat (wp z) - unat (start z)) + unat (capacity z) \<le> unat (max_capacity z)"
    unfolding zone_inv_def by blast+
  have bw: "(word_of_int b :: 64 word) = of_nat (nat b)" using b0 by simp
  have "unat (capacity z) < 2 ^ LENGTH(64)" by (rule unsigned_less)
  with bcap have small: "nat b < 2 ^ 64" by simp
  have ub: "unat (word_of_int b :: 64 word) = nat b"
    unfolding bw using small by (simp add: unat_of_nat)
  have "unat (wp z) + nat b < 2 ^ 64" using fit sw sum bcap by linarith
  then have wp': "unat (wp z + word_of_int b) = unat (wp z) + nat b"
    using ub by (simp add: unat_add_lem [THEN iffD1])
  have "word_of_int b \<le> capacity z" using ub bcap by (simp add: word_le_nat_alt)
  then have cap': "unat (capacity z - word_of_int b) = unat (capacity z) - nat b"
    using ub by (simp add: unat_sub)
  have "zone_inv z'"
    using fit sw sum bcap wp' cap' by (simp add: zone_inv_def z')
  moreover have "unat (wp z') = unat (wp z) + nat (bytes_written calls)"
    using wp' by (simp add: z' b_def)
  moreover have "ios = OK \<longrightarrow> unat (wp z') = unat (wp z) + unat sz"
  proof
    assume "ios = OK"
    with okb have "nat b = nat (uint sz)" by simp
    then have "nat b = unat sz" by simp
    with wp' show "unat (wp z') = unat (wp z) + unat sz" by (simp add: z')
  qed
  ultimately show ?thesis by blast
qed

lemma zone_inv_Reset:
  assumes "zone_inv z" and "Reset be z = Returns (ios, z')"
    and "unat (start z) + unat (snd (snd (be_Reset be (start z)))) < 2 ^ 64"
  shows "zone_inv z'"
  using assms
  by (cases "be_Reset be (start z)")
     (auto simp: Reset_def zone_inv_def Let_def split: if_splits)

lemma zone_inv_Finish:
  assumes "zone_inv z" and "Finish be z = Returns (ios, z')"
  shows "(ios = OK \<longrightarrow> wp z' = start z + be_ZoneSize be \<and> capacity z' = 0) \<and>
         (be_ZoneSize be \<le> max_capacity z \<longrightarrow> zone_inv z')"
proof -
  have "unat (start z + be_ZoneSize be) = unat (start z) + unat (be_ZoneSize be)"
    if "be_ZoneSize be \<le> max_capacity z"
  proof -
    from that have "unat (be_ZoneSize be) \<le> unat (max_capacity z)" by (simp add: word_le_nat_alt)
    with assms(1) have "unat (start z) + unat (be_ZoneSize be) < 2 ^ 64"
      by (simp add: zone_inv_def)
    then show ?thesis by (simp add: unat_add_lem [THEN iffD1])
  qed
  then show ?thesis using assms
    by (auto simp: Finish_def zone_inv_def Let_def word_le_nat_alt split: if_splits)
qed

text \<open>
  C9, as stated, fails for \<open>Finish\<close>: it moves the write pointer to the end of the zone,
  which lies beyond \<open>start + max_capacity\<close> when the zone is larger than its capacity.
\<close>

theorem Finish_breaks_wp_bound:
  "wp_in_bounds zns_zone \<and> zone_inv zns_zone \<and>
   Finish zns_backend zns_zone = Returns (OK, zns_zone\<lparr>capacity := 0, wp := 2147483648\<rparr>) \<and>
   \<not> wp_in_bounds (zns_zone\<lparr>capacity := 0, wp := 2147483648\<rparr>)"
  by (simp add: wp_in_bounds_def zone_inv_def zns_zone_def zns_backend_def Finish_def IsBusy_def)

text \<open>
  C9, amended. \<open>start \<le> wp \<le> start + max_capacity\<close> holds of a zone built from a
  descriptor that satisfies it, and it is kept, with the zone invariant, by \<open>Append\<close> on a
  backend that honours the contract of a write (the write pointer advances by exactly
  the bytes written) and by \<open>Reset\<close>. \<open>Finish\<close> puts the write pointer at
  \<open>start\<close> plus the zone size, and keeps the bound when the zone size does not exceed
  the maximum capacity.
\<close>

theorem wp_bounds_preserved:
  "(unat st \<le> unat w \<and> unat w \<le> unat st + unat mc \<and> unat st + unat mc < 2 ^ 64 \<longrightarrow>
      zone_inv (Zone_new st mc w writable)) \<and>
   (zone_inv z \<longrightarrow> wp_in_bounds z) \<and>
   (zone_inv za \<and> honours sz rs \<and> Append be za sz rs = Returns (ios, za', calls) \<longrightarrow>
      zone_inv za' \<and> unat (wp za') = unat (wp za) + nat (bytes_written calls) \<and>
      (ios = OK \<longrightarrow> unat (wp za') = unat (wp za) + unat sz)) \<and>
   (zone_inv zr \<and> Reset be zr = Returns (ios_r, zr') \<and>
      unat (start zr) + unat (snd (snd (be_Reset be (start zr)))) < 2 ^ 64 \<longrightarrow> zone_inv zr') \<and>
   (zone_inv zf \<and> Finish be zf = Returns (ios_f, zf') \<longrightarrow>
      (ios_f = OK \<longrightarrow> wp zf' = start zf + be_ZoneSize be \<and> capacity zf' = 0) \<and>
      (be_ZoneSize be \<le> max_capacity zf \<longrightarrow> zone_inv zf'))"
  using zone_inv_Zone_new [of st w mc writable] zone_inv_bounds [of z]
    zone_inv_Append [of za sz rs be ios za' calls]
    zone_inv_Reset [of zr be ios_r zr'] zone_inv_Finish [of zf be ios_f zf']
  by blast

theorem wp_bounds_preserved_witness:
  "zone_inv (Zone_new 4096 8192 8192 True) \<and>
   wp_in_bounds zone_open_ex \<and>
   zone_inv zone_open_ex \<and> honours 8192 [4096, 4096] \<and>
   Append backend_ex zone_open_ex 8192 [4096, 4096] =
     Returns (OK, zone_open_ex\<lparr>wp := 12288, capacity := 4096\<rparr>,
              [(8192, 4096, 4096), (4096, 8192, 4096)]) \<and>
   zone_inv (zone_open_ex\<lparr>wp := 12288, capacity := 4096\<rparr>) \<and>
   zone_inv zone_ex \<and>
   Reset backend_ex zone_ex = Returns (OK, zone_ex\<lparr>capacity := 8192, wp := 4096, lifetime := 0\<rparr>) \<and>
   zone_inv (zone_ex\<lparr>capacity := 8192, wp := 4096, lifetime := 0\<rparr>) \<and>
   Finish backend_ex zone_ex = Returns (OK, zone_ex) \<and>
   be_ZoneSize backend_ex \<le> max_capacity zone_ex"
proof -
  have a: "Append backend_ex zone_open_ex 8192 [4096, 4096] =
     Returns (OK, zone_open_ex\<lparr>wp := 12288, capacity := 4096\<rparr>,
              [(8192, 4096, 4096), (4096, 8192, 4096)])"
    by (simp add: backend_ex_def zone_open_ex_def Append_def)
  have r: "Reset backend_ex zone_ex = Returns (OK, zone_ex\<lparr>capacity := 8192, wp := 4096, lifetime := 0\<rparr>)"
    by (simp add: zone_ex_def backend_ex_def Reset_def IsUsed_def IsBusy_def WLTH_NOT_SET_def)
  have f: "Finish backend_ex zone_ex = Returns (OK, zone_ex)"
    by (simp add: zone_ex_def backend_ex_def Finish_def IsBusy_def)
  have i1: "zone_inv zone_open_ex" by (simp add: zone_inv_def zone_open_ex_def)
  have i2: "zone_inv zone_ex" by (simp add: zone_inv_def zone_ex_def)
  have h: "honours 8192 [4096, 4096]" by simp
  have fit: "unat (start zone_ex) + unat (snd (snd (be_Reset backend_ex (start zone_ex)))) < 2 ^ 64"
    by (simp add: zone_ex_def backend_ex_def)
  have zs: "be_ZoneSize backend_ex \<le> max_capacity zone_ex"
    by (simp add: zone_ex_def backend_ex_def)
  have n: "unat (4096 :: 64 word) \<le> unat (8192 :: 64 word) \<and>
           unat (8192 :: 64 word) \<le> unat (4096 :: 64 word) + unat (8192 :: 64 word) \<and>
           unat (4096 :: 64 word) + unat (8192 :: 64 word) < 2 ^ 64" by simp
  show ?thesis
    using wp_bounds_preserved [where st = 4096 and mc = 8192 and w = 8192 and writable = True
        and z = zone_open_ex and za = zone_open_ex and sz = 8192 and rs = "[4096, 4096]"
        and be = backend_ex and ios = OK and za' = "zone_open_ex\<lparr>wp := 12288, capacity := 4096\<rparr>"
        and calls = "[(8192, 4096, 4096), (4096, 8192, 4096)]"
        and zr = zone_ex and ios_r = OK
        and zr' = "zone_ex\<lparr>capacity := 8192, wp := 4096, lifetime := 0\<rparr>"
        and zf = zone_ex and ios_f = OK and zf' = zone_ex]
      a r f i1 i2 h fit zs n
    by blast
qed

section \<open>Properties of the token counters and of the deferred error\<close>

text \<open>
  The limit of \<open>WaitForOpenIOZoneToken\<close>: the cap for a prioritized caller, and one less
  for the others as long as the cap is not 0. The call goes on exactly when
  \<open>open_io_zones\<close> is below the limit, and then increments \<open>open_io_zones\<close> by one and
  changes nothing else.
\<close>

lemma uint_minus_1_32: "uint (- 1 :: 32 word) = 4294967295"
  by (simp add: unsigned_minus_1_eq_mask mask_eq_exp_minus_1)

lemma allocator_open_limit_values:
  "allocator_open_limit cfg True = uint (max_nr_open_io_zones cfg)"
  "max_nr_open_io_zones cfg \<noteq> 0 \<Longrightarrow>
     allocator_open_limit cfg False = uint (max_nr_open_io_zones cfg) - 1"
  "max_nr_open_io_zones cfg = 0 \<Longrightarrow> allocator_open_limit cfg False = 4294967295"
proof -
  show "allocator_open_limit cfg True = uint (max_nr_open_io_zones cfg)"
    by (simp add: allocator_open_limit_def)
  show "allocator_open_limit cfg False = uint (max_nr_open_io_zones cfg) - 1"
    if "max_nr_open_io_zones cfg \<noteq> 0"
  proof -
    from that have "1 \<le> max_nr_open_io_zones cfg" by (simp add: word_le_nat_alt unat_gt_0 Suc_leI)
    then have "uint (max_nr_open_io_zones cfg - 1) = uint (max_nr_open_io_zones cfg) - uint (1 :: 32 word)"
      by (simp only: uint_minus_simple_alt)
    then show ?thesis by (simp add: allocator_open_limit_def)
  qed
  show "allocator_open_limit cfg False = 4294967295" if "max_nr_open_io_zones cfg = 0"
    using that by (simp add: allocator_open_limit_def uint_minus_1_32)
qed

lemma WaitForOpenIOZoneToken_result:
  "WaitForOpenIOZoneToken cfg prioritized s =
     (if open_io_zones s < allocator_open_limit cfg prioritized
      then Returns (s\<lparr>open_io_zones := open_io_zones s + 1\<rparr>) else Blocked)"
  by (simp add: WaitForOpenIOZoneToken_def)

text \<open>
  C5. The limit of a caller without priority is not \<open>max_nr_open_io_zones - 1\<close> when the
  cap is 0: the subtraction wraps around to 4294967295, and the call, which should wait,
  takes a token and returns with one open zone above a cap of 0.
\<close>

theorem nonprioritized_limit_wraps:
  "max_nr_open_io_zones cfg_no_open_ex = 0 \<and> open_io_zones dev_ex = 0 \<and>
   allocator_open_limit cfg_no_open_ex False = 4294967295 \<and>
   WaitForOpenIOZoneToken cfg_no_open_ex False dev_ex = Returns (dev_ex\<lparr>open_io_zones := 1\<rparr>)"
  by (simp add: cfg_no_open_ex_def cfg_ex_def dev_ex_def WaitForOpenIOZoneToken_def
        allocator_open_limit_def uint_minus_1_32)

text \<open>
  C10. \<open>SetZoneDeferredStatus\<close> stores the status only when the status latched is not
  \<open>OK\<close>. On a latch that holds \<open>OK\<close> it changes nothing: \<open>GetZoneDeferredStatus\<close> still
  returns \<open>OK\<close>, and \<open>AllocateIOZone\<close> goes past its check of the deferred error.
\<close>

theorem SetZoneDeferredStatus_spec:
  "(zone_deferred_status s \<noteq> OK \<longrightarrow>
      SetZoneDeferredStatus status s = s\<lparr>zone_deferred_status := status\<rparr>) \<and>
   (zone_deferred_status s = OK \<longrightarrow>
      SetZoneDeferredStatus status s = s \<and>
      GetZoneDeferredStatus (SetZoneDeferredStatus status s) = OK \<and>
      AllocateIOZone cfg be (SetZoneDeferredStatus status s) file_lifetime io_type file_id =
        AllocateIOZone_checked cfg be s file_lifetime io_type file_id)"
  by (simp add: SetZoneDeferredStatus_def GetZoneDeferredStatus_def AllocateIOZone_def ok_def)

theorem SetZoneDeferredStatus_spec_witness:
  "zone_deferred_status dev_ex = OK \<and>
   SetZoneDeferredStatus IOError dev_ex = dev_ex \<and>
   GetZoneDeferredStatus (SetZoneDeferredStatus IOError dev_ex) = OK \<and>
   AllocateIOZone cfg_ex backend_ex (SetZoneDeferredStatus IOError dev_ex) 3 kWAL 5 =
     AllocateIOZone_checked cfg_ex backend_ex dev_ex 3 kWAL 5 \<and>
   zone_deferred_status (dev_ex\<lparr>zone_deferred_status := NoSpace\<rparr>) \<noteq> OK \<and>
   SetZoneDeferredStatus IOError (dev_ex\<lparr>zone_deferred_status := NoSpace\<rparr>) =
     dev_ex\<lparr>zone_deferred_status := IOError\<rparr>"
proof -
  have h: "zone_deferred_status dev_ex = OK" by (simp add: dev_ex_def)
  have n: "zone_deferred_status (dev_ex\<lparr>zone_deferred_status := NoSpace\<rparr>) \<noteq> OK" by simp
  from SetZoneDeferredStatus_spec [of dev_ex IOError cfg_ex backend_ex 3 kWAL 5] h
  have a: "SetZoneDeferredStatus IOError dev_ex = dev_ex \<and>
      GetZoneDeferredStatus (SetZoneDeferredStatus IOError dev_ex) = OK \<and>
      AllocateIOZone cfg_ex backend_ex (SetZoneDeferredStatus IOError dev_ex) 3 kWAL 5 =
        AllocateIOZone_checked cfg_ex backend_ex dev_ex 3 kWAL 5"
    by blast
  from SetZoneDeferredStatus_spec [of "dev_ex\<lparr>zone_deferred_status := NoSpace\<rparr>" IOError] n
  have b: "SetZoneDeferredStatus IOError (dev_ex\<lparr>zone_deferred_status := NoSpace\<rparr>) =
      dev_ex\<lparr>zone_deferred_status := IOError\<rparr>"
    by simp
  from a b h n show ?thesis by (elim conjE, intro conjI) assumption+
qed

text \<open>
  C1. The caps do not hold along every sequence of operations: the branch of
  \<open>AllocateIOZone\<close> that opens a new zone checks \<open>open_io_zones\<close> against its cap and then
  increments both counters. After the run \<open>ops_ex\<close> the device has 9 active zones with a
  cap of 8.
\<close>

theorem active_cap_exceeded:
  "obind (run cfg_ex backend_ex ops_ex dev_ex)
     (\<lambda>s. Returns (open_io_zones s, active_io_zones s, max_nr_active_io_zones cfg_ex)) = Returns (7, 9, 8)"
  by code_simp

section \<open>Properties of the allocators\<close>

text \<open>Acquiring and releasing a zone.\<close>

lemma unbusy_same: "\<not> busy z \<Longrightarrow> z\<lparr>busy := False\<rparr> = z"
  by (cases z) simp

lemma Acquire_idle [simp]: "\<not> busy z \<Longrightarrow> Acquire z = (True, z\<lparr>busy := True\<rparr>)"
  by (simp add: Acquire_def)

lemma Acquire_busy [simp]: "busy z \<Longrightarrow> Acquire z = (False, z)"
  by (simp add: Acquire_def)

lemma CheckRelease_busy [simp]: "busy z \<Longrightarrow> CheckRelease z = Returns (OK, z\<lparr>busy := False\<rparr>)"
  by (simp add: CheckRelease_def Release_def)

lemma IsEmpty_busy [simp]: "IsEmpty (z\<lparr>busy := b\<rparr>) = IsEmpty z"
  by (simp add: IsEmpty_def)

lemma IsUsed_busy [simp]: "IsUsed (z\<lparr>busy := b\<rparr>) = IsUsed z"
  by (simp add: IsUsed_def)

lemma IsFull_busy [simp]: "IsFull (z\<lparr>busy := b\<rparr>) = IsFull z"
  by (simp add: IsFull_def)

lemma Reset_acquired:
  assumes "\<not> IsUsed z"
  shows "Reset be (z\<lparr>busy := True\<rparr>) =
           (if fst (be_Reset be (start z)) \<noteq> OK
            then Returns (fst (be_Reset be (start z)), z\<lparr>busy := True\<rparr>)
            else Returns (OK, (if fst (snd (be_Reset be (start z))) then z\<lparr>capacity := 0\<rparr>
                   else z\<lparr>capacity := snd (snd (be_Reset be (start z))),
                          max_capacity := snd (snd (be_Reset be (start z)))\<rparr>)
                  \<lparr>wp := start z, lifetime := WLTH_NOT_SET, busy := True\<rparr>))"
  using assms
  by (cases "be_Reset be (start z)") (simp add: Reset_def IsBusy_def Let_def)

text \<open>
  The scan of the meta zones returns, with \<open>NoSpace\<close> when no zone is usable and with the
  first usable zone otherwise.
\<close>

lemma AllocateMetaZone_scan_result:
  "\<exists>st r zs'. AllocateMetaZone_scan be zs = Returns (st, r, zs') \<and> length zs' = length zs \<and>
     (case r of
        None \<Rightarrow> st = NoSpace \<and> (\<forall>z \<in> set zs. \<not> usable_meta be z)
      | Some i \<Rightarrow> st = OK \<and> i < length zs \<and> usable_meta be (zs ! i) \<and>
          (\<forall>j < i. \<not> usable_meta be (zs ! j)) \<and> meta_taken be (zs ! i) (zs' ! i))"
proof (induction zs)
  case Nil
  show ?case by simp
next
  case (Cons z zs)
  from Cons.IH obtain st r zs' where
    scan: "AllocateMetaZone_scan be zs = Returns (st, r, zs')" and len: "length zs' = length zs"
    and res: "case r of
        None \<Rightarrow> st = NoSpace \<and> (\<forall>z \<in> set zs. \<not> usable_meta be z)
      | Some i \<Rightarrow> st = OK \<and> i < length zs \<and> usable_meta be (zs ! i) \<and>
          (\<forall>j < i. \<not> usable_meta be (zs ! j)) \<and> meta_taken be (zs ! i) (zs' ! i)"
    by blast
  have skip: ?case
    if nu: "\<not> usable_meta be z"
      and step: "AllocateMetaZone_scan be (z # zs) = Returns (st, map_option Suc r, z0 # zs')" for z0
  proof (cases r)
    case None
    with res nu step len show ?thesis by auto
  next
    case (Some i)
    with res have "\<forall>j < Suc i. \<not> usable_meta be ((z # zs) ! j)"
      using nu by (auto simp: less_Suc_eq_0_disj)
    with Some res step len show ?thesis by auto
  qed
  show ?case
  proof (cases "busy z")
    case True
    then have "\<not> usable_meta be z" by (simp add: usable_meta_def)
    moreover from True scan have "AllocateMetaZone_scan be (z # zs) = Returns (st, map_option Suc r, z # zs')"
      by simp
    ultimately show ?thesis by (rule skip)
  next
    case idle: False
    show ?thesis
    proof (cases "IsUsed z")
      case True
      then have "\<not> usable_meta be z" by (simp add: usable_meta_def)
      moreover from idle True scan
      have "AllocateMetaZone_scan be (z # zs) = Returns (st, map_option Suc r, z\<lparr>busy := True\<rparr> # zs')"
        by simp
      ultimately show ?thesis by (rule skip)
    next
      case unused: False
      show ?thesis
      proof (cases "IsEmpty z")
        case True
        with idle unused have "AllocateMetaZone_scan be (z # zs) = Returns (OK, Some 0, z\<lparr>busy := True\<rparr> # zs)"
          by simp
        moreover from True idle unused have "usable_meta be z" by (simp add: usable_meta_def)
        moreover from True idle unused have "meta_taken be z (z\<lparr>busy := True\<rparr>)"
          by (simp add: meta_taken_def)
        ultimately show ?thesis by simp
      next
        case nonempty: False
        show ?thesis
        proof (cases "fst (be_Reset be (start z)) = OK")
          case True
          let ?z2 = "(if fst (snd (be_Reset be (start z))) then z\<lparr>capacity := 0\<rparr>
                   else z\<lparr>capacity := snd (snd (be_Reset be (start z))),
                          max_capacity := snd (snd (be_Reset be (start z)))\<rparr>)
                  \<lparr>wp := start z, lifetime := WLTH_NOT_SET, busy := True\<rparr>"
          from True unused have r: "Reset be (z\<lparr>busy := True\<rparr>) = Returns (OK, ?z2)"
            by (simp add: Reset_acquired)
          with idle unused nonempty
          have "AllocateMetaZone_scan be (z # zs) = Returns (OK, Some 0, ?z2 # zs)"
            by (simp add: ok_def)
          moreover from True idle unused have "usable_meta be z" by (simp add: usable_meta_def)
          moreover from r nonempty unused have "meta_taken be z ?z2"
            by (simp add: meta_taken_def IsEmpty_def IsUsed_def)
          ultimately show ?thesis by simp
        next
          case False
          with unused have r: "Reset be (z\<lparr>busy := True\<rparr>) = Returns (fst (be_Reset be (start z)), z\<lparr>busy := True\<rparr>)"
            by (simp add: Reset_acquired)
          from False nonempty have "\<not> usable_meta be z" by (simp add: usable_meta_def)
          moreover from r False idle unused nonempty scan
          have "AllocateMetaZone_scan be (z # zs) = Returns (st, map_option Suc r, z # zs')"
            by (simp add: ok_def unbusy_same)
          ultimately show ?thesis by (rule skip)
        qed
      qed
    qed
  qed
qed

text \<open>
  C8, as stated, fails: \<open>NoSpace\<close> is also what \<open>AllocateMetaZone\<close> returns when an
  unused meta zone is busy.
\<close>

theorem AllocateMetaZone_NoSpace_without_used:
  "AllocateMetaZone backend_ex meta_busy_ex = Returns (NoSpace, None, meta_busy_ex) \<and>
   meta_zones meta_busy_ex = [zone_ex] \<and> \<not> IsUsed zone_ex"
  by (simp add: AllocateMetaZone_def meta_busy_ex_def zone_ex_def IsUsed_def)

text \<open>
  C8, amended. \<open>AllocateMetaZone\<close> returns. It returns \<open>NoSpace\<close> if and only if every
  meta zone is busy, or holds live data, or is not empty and fails to reset; in
  particular when every meta zone is used. Otherwise it returns \<open>OK\<close> with the first
  meta zone that is idle, unused and either empty or reset with success, its busy
  flag set, reset first when it was not empty.
\<close>

theorem AllocateMetaZone_spec:
  "\<exists>st r s'. AllocateMetaZone be s = Returns (st, r, s') \<and>
     (st = NoSpace \<longleftrightarrow> (\<forall>z \<in> set (meta_zones s). \<not> usable_meta be z)) \<and>
     ((\<forall>z \<in> set (meta_zones s). IsUsed z) \<longrightarrow> st = NoSpace) \<and>
     (st \<noteq> NoSpace \<longrightarrow>
        st = OK \<and>
        (\<exists>i. r = Some i \<and> i < length (meta_zones s) \<and> usable_meta be (meta_zones s ! i) \<and>
             (\<forall>j < i. \<not> usable_meta be (meta_zones s ! j)) \<and>
             meta_taken be (meta_zones s ! i) (meta_zones s' ! i)))"
proof -
  from AllocateMetaZone_scan_result [of be "meta_zones s"] obtain st r zs' where
    scan: "AllocateMetaZone_scan be (meta_zones s) = Returns (st, r, zs')"
    and res: "case r of
        None \<Rightarrow> st = NoSpace \<and> (\<forall>z \<in> set (meta_zones s). \<not> usable_meta be z)
      | Some i \<Rightarrow> st = OK \<and> i < length (meta_zones s) \<and> usable_meta be (meta_zones s ! i) \<and>
          (\<forall>j < i. \<not> usable_meta be (meta_zones s ! j)) \<and>
          meta_taken be (meta_zones s ! i) (zs' ! i)"
    by blast
  let ?s' = "s\<lparr>meta_zones := zs'\<rparr>"
  from scan have run: "AllocateMetaZone be s = Returns (st, r, ?s')"
    by (simp add: AllocateMetaZone_def)
  have used: "\<not> usable_meta be z" if "IsUsed z" for z
    using that by (simp add: usable_meta_def)
  show ?thesis
  proof (cases r)
    case None
    with res run used show ?thesis by auto
  next
    case (Some i)
    with res have st: "st = OK" and i: "i < length (meta_zones s)"
      and u: "usable_meta be (meta_zones s ! i)"
      and first: "\<forall>j < i. \<not> usable_meta be (meta_zones s ! j)"
      and t: "meta_taken be (meta_zones s ! i) (meta_zones ?s' ! i)"
      by simp_all
    from i u have ex: "\<not> (\<forall>z \<in> set (meta_zones s). \<not> usable_meta be z)"
      using nth_mem by blast
    with used have "\<not> (\<forall>z \<in> set (meta_zones s). IsUsed z)" by blast
    with run st Some i u first t ex show ?thesis by (intro exI [of _ st] exI [of _ r] exI [of _ ?s']) auto
  qed
qed

theorem AllocateMetaZone_spec_witness:
  "AllocateMetaZone backend_ex meta_dev_ex =
     Returns (OK, Some 1, meta_dev_ex\<lparr>meta_zones :=
       [zone_ex, zone_ex\<lparr>capacity := 8192, wp := 4096, lifetime := 0\<rparr>]\<rparr>) \<and>
   \<not> (\<forall>z \<in> set (meta_zones meta_dev_ex). \<not> usable_meta backend_ex z) \<and>
   \<not> (\<forall>z \<in> set (meta_zones meta_dev_ex). IsUsed z)"
proof -
  have e: "AllocateMetaZone backend_ex meta_dev_ex =
     Returns (OK, Some 1, meta_dev_ex\<lparr>meta_zones :=
       [zone_ex, zone_ex\<lparr>capacity := 8192, wp := 4096, lifetime := 0\<rparr>]\<rparr>)"
    by (simp add: AllocateMetaZone_def meta_dev_ex_def zone_ex_def backend_ex_def IsUsed_def
          IsEmpty_def ok_def Reset_def IsBusy_def WLTH_NOT_SET_def)
  from AllocateMetaZone_spec [of backend_ex meta_dev_ex] e
  have "\<not> (\<forall>z \<in> set (meta_zones meta_dev_ex). \<not> usable_meta backend_ex z) \<and>
        \<not> (\<forall>z \<in> set (meta_zones meta_dev_ex). IsUsed z)"
    by auto
  with e show ?thesis by (intro conjI) simp_all
qed

text \<open>
  The loop of \<open>ApplyFinishThreshold\<close>, when the backend finishes every zone it is asked
  to finish.
\<close>

lemma within_finish_threshold_busy [simp]:
  "within_finish_threshold cfg (z\<lparr>busy := b\<rparr>) = within_finish_threshold cfg z"
  by (simp add: within_finish_threshold_def)

lemma Finish_acquired:
  "Finish be (z\<lparr>busy := True\<rparr>) =
     (if be_Finish be (start z) \<noteq> OK then Returns (be_Finish be (start z), z\<lparr>busy := True\<rparr>)
      else Returns (OK, z\<lparr>capacity := 0, wp := start z + be_ZoneSize be, busy := True\<rparr>))"
  by (simp add: Finish_def IsBusy_def Let_def)

lemma ApplyFinishThreshold_loop_result:
  assumes "\<forall>z \<in> set zs. finishable cfg z \<longrightarrow> be_Finish be (start z) = OK"
  shows "ApplyFinishThreshold_loop cfg be zs a =
           Returns (OK,
             map (\<lambda>z. if finishable cfg z then z\<lparr>capacity := 0, wp := start z + be_ZoneSize be\<rparr> else z) zs,
             a - int (length (filter (finishable cfg) zs)))"
  using assms
proof (induction zs arbitrary: a)
  case Nil
  show ?case by simp
next
  case (Cons z zs)
  from Cons.prems have tl: "\<forall>z \<in> set zs. finishable cfg z \<longrightarrow> be_Finish be (start z) = OK"
    by simp
  note IH = Cons.IH [OF tl]
  show ?case
  proof (cases "busy z")
    case True
    then have "\<not> finishable cfg z" by (simp add: finishable_def)
    with True IH show ?thesis by simp
  next
    case idle: False
    show ?thesis
    proof (cases "finishable cfg z")
      case True
      with Cons.prems have f: "be_Finish be (start z) = OK" by simp
      from True have c: "\<not> (IsEmpty z \<or> IsFull z) \<and> within_finish_threshold cfg z"
        by (simp add: finishable_def)
      have "(z\<lparr>capacity := 0, wp := start z + be_ZoneSize be, busy := True\<rparr>)\<lparr>busy := False\<rparr>
              = z\<lparr>capacity := 0, wp := start z + be_ZoneSize be\<rparr>"
        using idle by (cases z) simp
      with idle True c f IH show ?thesis
        by (simp add: Finish_acquired ok_def)
    next
      case False
      with idle have c: "\<not> (\<not> (IsEmpty z \<or> IsFull z) \<and> within_finish_threshold cfg z)"
        by (simp add: finishable_def)
      from idle c False IH show ?thesis
        by (auto simp: ok_def unbusy_same)
    qed
  qed
qed

text \<open>
  The latch of the deferred error has one writer, \<open>SetZoneDeferredStatus\<close>, and it keeps
  a latch that holds \<open>OK\<close>.
\<close>

lemma deferred_latch_stays_OK:
  "zone_deferred_status s = OK \<Longrightarrow> zone_deferred_status (SetZoneDeferredStatus status s) = OK"
  by (simp add: SetZoneDeferredStatus_def ok_def)

text \<open>
  C7. With a threshold of 0, \<open>ApplyFinishThreshold\<close> returns \<open>OK\<close> and changes nothing.
  With another threshold, and a backend that finishes the zones it is asked to finish, it
  returns \<open>OK\<close>, every zone that it can acquire, that is neither empty nor full and whose
  capacity is below \<open>max_capacity * finish_threshold / 100\<close> (computed in 64-bit unsigned
  arithmetic) is finished, its capacity 0 and its write pointer at the end of the zone,
  the other zones are as they were, and \<open>active_io_zones\<close> has dropped by the number of zones
  finished. A call of \<open>AllocateIOZone\<close> that is not for the write-ahead log starts with
  this maintenance; it is past the check of the deferred error because the latch, which
  starts as \<open>OK\<close>, never leaves \<open>OK\<close>.
\<close>

theorem ApplyFinishThreshold_spec:
  "(finish_threshold cfg = 0 \<longrightarrow> ApplyFinishThreshold cfg be s = Returns (OK, s)) \<and>
   (finish_threshold cfg \<noteq> 0 \<and>
    (\<forall>z \<in> set (io_zones s). finishable cfg z \<longrightarrow> be_Finish be (start z) = OK) \<longrightarrow>
      ApplyFinishThreshold cfg be s =
        Returns (OK,
          s\<lparr>io_zones := map (\<lambda>z. if finishable cfg z
                                   then z\<lparr>capacity := 0, wp := start z + be_ZoneSize be\<rparr>
                                   else z) (io_zones s),
            active_io_zones := active_io_zones s - int (length (filter (finishable cfg) (io_zones s)))\<rparr>)) \<and>
   (io_type \<noteq> kWAL \<and> zone_deferred_status s = OK \<longrightarrow>
      AllocateIOZone cfg be s file_lifetime io_type file_id =
        obind (ApplyFinishThreshold cfg be s) (\<lambda>(st1, s1).
          if \<not> ok st1 then Returns (st1, None, s1)
          else obind (ResetUnusedIOZones cfg be s1) (\<lambda>(st2, s2).
                 if \<not> ok st2 then Returns (st2, None, s2)
                 else AllocateIOZone_locked cfg s2 (effective_lifetime cfg file_lifetime file_id))))"
proof (intro conjI impI)
  assume "finish_threshold cfg = 0"
  then show "ApplyFinishThreshold cfg be s = Returns (OK, s)"
    by (simp add: ApplyFinishThreshold_def)
next
  assume a: "finish_threshold cfg \<noteq> 0 \<and>
    (\<forall>z \<in> set (io_zones s). finishable cfg z \<longrightarrow> be_Finish be (start z) = OK)"
  then have "\<forall>z \<in> set (io_zones s). finishable cfg z \<longrightarrow> be_Finish be (start z) = OK" by simp
  from ApplyFinishThreshold_loop_result [OF this, of "active_io_zones s"] a
  show "ApplyFinishThreshold cfg be s =
        Returns (OK,
          s\<lparr>io_zones := map (\<lambda>z. if finishable cfg z
                                   then z\<lparr>capacity := 0, wp := start z + be_ZoneSize be\<rparr>
                                   else z) (io_zones s),
            active_io_zones := active_io_zones s - int (length (filter (finishable cfg) (io_zones s)))\<rparr>)"
    by (simp add: ApplyFinishThreshold_def)
next
  assume "io_type \<noteq> kWAL \<and> zone_deferred_status s = OK"
  then show "AllocateIOZone cfg be s file_lifetime io_type file_id =
        obind (ApplyFinishThreshold cfg be s) (\<lambda>(st1, s1).
          if \<not> ok st1 then Returns (st1, None, s1)
          else obind (ResetUnusedIOZones cfg be s1) (\<lambda>(st2, s2).
                 if \<not> ok st2 then Returns (st2, None, s2)
                 else AllocateIOZone_locked cfg s2 (effective_lifetime cfg file_lifetime file_id)))"
    by (simp add: AllocateIOZone_def AllocateIOZone_checked_def GetZoneDeferredStatus_def Let_def, simp add: ok_def)
qed

theorem ApplyFinishThreshold_spec_witness:
  "finish_threshold cfg_ex \<noteq> 0 \<and>
   ApplyFinishThreshold cfg_ex backend_ex fin_dev_ex =
     Returns (OK, fin_dev_ex\<lparr>io_zones := (io_zones fin_dev_ex)
         [0 := (io_zones fin_dev_ex ! 0)\<lparr>capacity := 0, wp := 8192\<rparr>], active_io_zones := 1\<rparr>) \<and>
   finish_threshold (cfg_ex\<lparr>finish_threshold := 0\<rparr>) = 0 \<and>
   ApplyFinishThreshold (cfg_ex\<lparr>finish_threshold := 0\<rparr>) backend_ex fin_dev_ex = Returns (OK, fin_dev_ex) \<and>
   kOther \<noteq> kWAL \<and> zone_deferred_status fin_dev_ex = OK \<and>
   AllocateIOZone cfg_ex backend_ex fin_dev_ex 4 kOther 7 =
     obind (ApplyFinishThreshold cfg_ex backend_ex fin_dev_ex) (\<lambda>(st1, s1).
       if \<not> ok st1 then Returns (st1, None, s1)
       else obind (ResetUnusedIOZones cfg_ex backend_ex s1) (\<lambda>(st2, s2).
              if \<not> ok st2 then Returns (st2, None, s2)
              else AllocateIOZone_locked cfg_ex s2 (effective_lifetime cfg_ex 4 7)))"
proof -
  have t: "finish_threshold cfg_ex \<noteq> 0" by (simp add: cfg_ex_def)
  have f: "\<forall>z \<in> set (io_zones fin_dev_ex). finishable cfg_ex z \<longrightarrow> be_Finish backend_ex (start z) = OK"
    by (simp add: backend_ex_def)
  have z: "finish_threshold (cfg_ex\<lparr>finish_threshold := 0\<rparr>) = 0" by simp
  have d: "zone_deferred_status fin_dev_ex = OK" by (simp add: fin_dev_ex_def dev_ex_def)
  have k: "kOther \<noteq> kWAL" by simp
  note spec = ApplyFinishThreshold_spec [of cfg_ex backend_ex fin_dev_ex kOther 4 7]
  from spec t f have "ApplyFinishThreshold cfg_ex backend_ex fin_dev_ex =
     Returns (OK, fin_dev_ex\<lparr>io_zones := map (\<lambda>z. if finishable cfg_ex z
                                   then z\<lparr>capacity := 0, wp := start z + be_ZoneSize backend_ex\<rparr>
                                   else z) (io_zones fin_dev_ex),
            active_io_zones := active_io_zones fin_dev_ex -
              int (length (filter (finishable cfg_ex) (io_zones fin_dev_ex)))\<rparr>)"
    by blast
  moreover have "fin_dev_ex\<lparr>io_zones := map (\<lambda>z. if finishable cfg_ex z
                                   then z\<lparr>capacity := 0, wp := start z + be_ZoneSize backend_ex\<rparr>
                                   else z) (io_zones fin_dev_ex),
            active_io_zones := active_io_zones fin_dev_ex -
              int (length (filter (finishable cfg_ex) (io_zones fin_dev_ex)))\<rparr> =
     fin_dev_ex\<lparr>io_zones := (io_zones fin_dev_ex)
         [0 := (io_zones fin_dev_ex ! 0)\<lparr>capacity := 0, wp := 8192\<rparr>], active_io_zones := 1\<rparr>"
    by (simp add: fin_dev_ex_def finishable_def within_finish_threshold_def cfg_ex_def
          IsEmpty_def IsFull_def Zone_new_def backend_ex_def)
  ultimately have a: "ApplyFinishThreshold cfg_ex backend_ex fin_dev_ex =
     Returns (OK, fin_dev_ex\<lparr>io_zones := (io_zones fin_dev_ex)
         [0 := (io_zones fin_dev_ex ! 0)\<lparr>capacity := 0, wp := 8192\<rparr>], active_io_zones := 1\<rparr>)"
    by (simp only:)
  from ApplyFinishThreshold_spec [of "cfg_ex\<lparr>finish_threshold := 0\<rparr>" backend_ex fin_dev_ex] z
  have b: "ApplyFinishThreshold (cfg_ex\<lparr>finish_threshold := 0\<rparr>) backend_ex fin_dev_ex = Returns (OK, fin_dev_ex)"
    by blast
  from spec k d have c: "AllocateIOZone cfg_ex backend_ex fin_dev_ex 4 kOther 7 =
     obind (ApplyFinishThreshold cfg_ex backend_ex fin_dev_ex) (\<lambda>(st1, s1).
       if \<not> ok st1 then Returns (st1, None, s1)
       else obind (ResetUnusedIOZones cfg_ex backend_ex s1) (\<lambda>(st2, s2).
              if \<not> ok st2 then Returns (st2, None, s2)
              else AllocateIOZone_locked cfg_ex s2 (effective_lifetime cfg_ex 4 7)))"
    by blast
  from t a z b k d c show ?thesis by (intro conjI)
qed

text \<open>
  \<open>AllocateEmptyZone\<close> always returns \<open>OK\<close>: it holds the first zone of the registry that
  can be acquired and is empty, or no zone when there is none, and leaves every other
  zone as it was.
\<close>

lemma AllocateEmptyZone_scan_result:
  "\<exists>r. AllocateEmptyZone_scan zs =
          Returns (OK, r, case r of None \<Rightarrow> zs | Some a \<Rightarrow> zs[a := (zs ! a)\<lparr>busy := True\<rparr>]) \<and>
       (case r of
          None \<Rightarrow> \<forall>z \<in> set zs. \<not> acquirable_empty z
        | Some a \<Rightarrow> a < length zs \<and> acquirable_empty (zs ! a) \<and>
            (\<forall>j < a. \<not> acquirable_empty (zs ! j)))"
proof (induction zs)
  case Nil
  show ?case by (intro exI [of _ None]) simp
next
  case (Cons z zs)
  from Cons.IH obtain r where
    scan: "AllocateEmptyZone_scan zs =
          Returns (OK, r, case r of None \<Rightarrow> zs | Some a \<Rightarrow> zs[a := (zs ! a)\<lparr>busy := True\<rparr>])"
    and res: "case r of
          None \<Rightarrow> \<forall>z \<in> set zs. \<not> acquirable_empty z
        | Some a \<Rightarrow> a < length zs \<and> acquirable_empty (zs ! a) \<and>
            (\<forall>j < a. \<not> acquirable_empty (zs ! j))"
    by blast
  show ?case
  proof (cases "acquirable_empty z")
    case True
    then have "AllocateEmptyZone_scan (z # zs) = Returns (OK, Some 0, z\<lparr>busy := True\<rparr> # zs)"
      by (simp add: acquirable_empty_def)
    with True show ?thesis by (intro exI [of _ "Some 0"]) simp
  next
    case False
    have step: "AllocateEmptyZone_scan (z # zs) =
        Returns (OK, map_option Suc r,
          z # (case r of None \<Rightarrow> zs | Some a \<Rightarrow> zs[a := (zs ! a)\<lparr>busy := True\<rparr>]))"
    proof (cases "busy z")
      case True
      with scan show ?thesis by simp
    next
      case idle: False
      with False have "\<not> IsEmpty z" by (simp add: acquirable_empty_def)
      with idle scan show ?thesis by (simp add: ok_def unbusy_same)
    qed
    show ?thesis
    proof (cases r)
      case None
      with step res False show ?thesis by (intro exI [of _ None]) simp
    next
      case (Some a)
      with res False have "\<forall>j < Suc a. \<not> acquirable_empty ((z # zs) ! j)"
        by (auto simp: less_Suc_eq_0_disj)
      with Some step res show ?thesis by (intro exI [of _ "Some (Suc a)"]) simp
    qed
  qed
qed

lemma AllocateEmptyZone_result:
  "\<exists>r. AllocateEmptyZone s =
          Returns (OK, r,
            case r of None \<Rightarrow> s
            | Some a \<Rightarrow> s\<lparr>io_zones := (io_zones s)[a := (io_zones s ! a)\<lparr>busy := True\<rparr>]\<rparr>) \<and>
       (case r of
          None \<Rightarrow> \<forall>z \<in> set (io_zones s). \<not> acquirable_empty z
        | Some a \<Rightarrow> a < length (io_zones s) \<and> acquirable_empty (io_zones s ! a) \<and>
            (\<forall>j < a. \<not> acquirable_empty (io_zones s ! j)))"
proof -
  from AllocateEmptyZone_scan_result [of "io_zones s"] obtain r where
    scan: "AllocateEmptyZone_scan (io_zones s) =
          Returns (OK, r, case r of None \<Rightarrow> io_zones s
             | Some a \<Rightarrow> (io_zones s)[a := (io_zones s ! a)\<lparr>busy := True\<rparr>])"
    and res: "case r of
          None \<Rightarrow> \<forall>z \<in> set (io_zones s). \<not> acquirable_empty z
        | Some a \<Rightarrow> a < length (io_zones s) \<and> acquirable_empty (io_zones s ! a) \<and>
            (\<forall>j < a. \<not> acquirable_empty (io_zones s ! j))"
    by blast
  from scan have "AllocateEmptyZone s =
          Returns (OK, r,
            case r of None \<Rightarrow> s
            | Some a \<Rightarrow> s\<lparr>io_zones := (io_zones s)[a := (io_zones s ! a)\<lparr>busy := True\<rparr>]\<rparr>)"
    by (cases r) (simp_all add: AllocateEmptyZone_def)
  with res show ?thesis by blast
qed

text \<open>\<open>EmitLevelZone\<close>, in terms of the state after the removal and the release.\<close>

lemma bucket_insert_Nil [simp]: "bucket_insert z [] = [z]"
  by (simp add: bucket_insert_def)

lemma set_bucket_insert [simp]: "set (bucket_insert z b) = insert z (set b)"
  by (auto simp: bucket_insert_def set_insort_key)

lemma Release_snd: "snd (Release z) = z\<lparr>busy := False\<rparr>"
  by (simp add: Release_def unbusy_same)

lemma first_acquirable_unique:
  assumes "acquirable_empty (zs ! a)" and "\<forall>j < a. \<not> acquirable_empty (zs ! j)"
    and "acquirable_empty (zs ! b)" and "\<forall>j < b. \<not> acquirable_empty (zs ! j)"
  shows "a = b"
  using assms by (meson linorder_neqE_nat)

lemma EmitLevelZone_unfold:
  assumes "emit_zone < length (io_zones s)" and "0 \<le> emit_level cfg s emit_zone"
    and "nat (emit_level cfg s emit_zone) < length (level_zones s)"
  shows "EmitLevelZone cfg s emit_zone =
     (if level_zones (emitted cfg s emit_zone) ! nat (emit_level cfg s emit_zone) = [] then
        obind (AllocateEmptyZone (emitted cfg s emit_zone)) (\<lambda>(st, r, s2).
          if \<not> ok st then Aborted
          else
            (case r of
               None \<Rightarrow> Blocked
             | Some a \<Rightarrow>
                 Returns (True,
                   s2\<lparr>io_zones := (io_zones s2)[a := (io_zones s2 ! a)\<lparr>lifetime := lifetime (io_zones s2 ! emit_zone)\<rparr>],
                      level_zones := (level_zones s2)[nat (emit_level cfg s emit_zone) :=
                        bucket_insert a (level_zones s2 ! nat (emit_level cfg s emit_zone))]\<rparr>)))
      else
        Returns (False,
          (emitted cfg s emit_zone)\<lparr>active_io_zones := active_io_zones s - 1,
             open_io_zones := open_io_zones s - 1\<rparr>))"
  using assms unfolding EmitLevelZone_def emitted_def emit_level_def Let_def
  by (simp add: Release_snd not_less)

lemma emitted_bucket:
  assumes "emit_zone < length (io_zones s)"
    and "nat (emit_level cfg s emit_zone) < length (level_zones s)"
  shows "emit_zone \<notin> set (level_zones (emitted cfg s emit_zone) ! nat (emit_level cfg s emit_zone))"
    and "\<not> busy (io_zones (emitted cfg s emit_zone) ! emit_zone)"
    and "\<not> useinlevelzone (io_zones (emitted cfg s emit_zone) ! emit_zone)"
    and "lifetime (io_zones (emitted cfg s emit_zone) ! emit_zone) = lifetime (io_zones s ! emit_zone)"
    and "length (level_zones (emitted cfg s emit_zone)) = length (level_zones s)"
    and "length (io_zones (emitted cfg s emit_zone)) = length (io_zones s)"
    and "open_io_zones (emitted cfg s emit_zone) = open_io_zones s"
    and "active_io_zones (emitted cfg s emit_zone) = active_io_zones s"
  using assms by (simp_all add: emitted_def)

text \<open>
  \<open>EmitLevelZone\<close> for a zone \<open>z\<close> of the registry whose lifetime names a bucket: the
  zone is erased from that bucket, its lease flag cleared and the zone released. If the
  bucket is not empty then, both counters are decremented and the call returns false.
  If it is empty, the first zone of the registry that can be acquired and is empty
  (after the release of \<open>z\<close>, so it may be \<open>z\<close> itself, which is then busy and in the
  bucket again) is acquired, given the lifetime of \<open>z\<close> and made the only zone of the
  bucket, the counters stay, and the call returns true; while there is no such zone the
  call does not return.
\<close>

lemma EmitLevelZone_in_range:
  assumes "emit_zone < length (io_zones s)" and "0 \<le> emit_level cfg s emit_zone"
    and "nat (emit_level cfg s emit_zone) < length (level_zones s)"
  shows
    "(emit_zone \<notin> set (level_zones (emitted cfg s emit_zone) ! nat (emit_level cfg s emit_zone)) \<and>
      \<not> busy (io_zones (emitted cfg s emit_zone) ! emit_zone) \<and>
      \<not> useinlevelzone (io_zones (emitted cfg s emit_zone) ! emit_zone)) \<and>
     (level_zones (emitted cfg s emit_zone) ! nat (emit_level cfg s emit_zone) \<noteq> [] \<longrightarrow>
        EmitLevelZone cfg s emit_zone =
          Returns (False, (emitted cfg s emit_zone)\<lparr>active_io_zones := active_io_zones s - 1,
                            open_io_zones := open_io_zones s - 1\<rparr>)) \<and>
     (level_zones (emitted cfg s emit_zone) ! nat (emit_level cfg s emit_zone) = [] \<longrightarrow>
        ((\<forall>z \<in> set (io_zones (emitted cfg s emit_zone)). \<not> acquirable_empty z) \<longrightarrow>
           EmitLevelZone cfg s emit_zone = Blocked) \<and>
        (\<forall>a. a < length (io_zones s) \<and> acquirable_empty (io_zones (emitted cfg s emit_zone) ! a) \<and>
              (\<forall>j < a. \<not> acquirable_empty (io_zones (emitted cfg s emit_zone) ! j)) \<longrightarrow>
           EmitLevelZone cfg s emit_zone =
             Returns (True, (emitted cfg s emit_zone)
               \<lparr>io_zones := (io_zones (emitted cfg s emit_zone))
                   [a := (io_zones (emitted cfg s emit_zone) ! a)
                      \<lparr>busy := True, lifetime := lifetime (io_zones s ! emit_zone)\<rparr>],
                level_zones := (level_zones (emitted cfg s emit_zone))
                   [nat (emit_level cfg s emit_zone) := [a]]\<rparr>))) \<and>
     (\<forall>replaced s'. EmitLevelZone cfg s emit_zone = Returns (replaced, s') \<longrightarrow>
        length (level_zones s') = length (level_zones s) \<and>
        level_zones s' ! nat (emit_level cfg s emit_zone) \<noteq> [] \<and>
        (\<forall>i < length (level_zones s). i \<noteq> nat (emit_level cfg s emit_zone) \<longrightarrow>
             level_zones s' ! i = level_zones s ! i) \<and>
        ((\<forall>b \<in> set (level_zones s). b \<noteq> []) \<longrightarrow> (\<forall>b \<in> set (level_zones s'). b \<noteq> [])) \<and>
        (replaced \<longrightarrow> open_io_zones s' = open_io_zones s \<and> active_io_zones s' = active_io_zones s) \<and>
        (\<not> replaced \<longrightarrow> open_io_zones s' = open_io_zones s - 1 \<and>
                       active_io_zones s' = active_io_zones s - 1))"
proof -
  define l where "l = nat (emit_level cfg s emit_zone)"
  define s1 where "s1 = emitted cfg s emit_zone"
  note unf = EmitLevelZone_unfold [OF assms, folded l_def s1_def]
  note eb = emitted_bucket [OF assms(1) assms(3), folded l_def s1_def]
  from assms(3) have l: "l < length (level_zones s)" by (simp add: l_def)
  have lz1: "level_zones s1 = (level_zones s)[l := removeAll emit_zone (level_zones s ! l)]"
    by (simp add: s1_def emitted_def l_def)
  from AllocateEmptyZone_result [of s1] obtain r where
    alloc: "AllocateEmptyZone s1 =
          Returns (OK, r,
            case r of None \<Rightarrow> s1
            | Some a \<Rightarrow> s1\<lparr>io_zones := (io_zones s1)[a := (io_zones s1 ! a)\<lparr>busy := True\<rparr>]\<rparr>)"
    and res: "case r of
          None \<Rightarrow> \<forall>z \<in> set (io_zones s1). \<not> acquirable_empty z
        | Some a \<Rightarrow> a < length (io_zones s1) \<and> acquirable_empty (io_zones s1 ! a) \<and>
            (\<forall>j < a. \<not> acquirable_empty (io_zones s1 ! j))"
    by blast
  have keep: "EmitLevelZone cfg s emit_zone =
      Returns (False, s1\<lparr>active_io_zones := active_io_zones s - 1, open_io_zones := open_io_zones s - 1\<rparr>)"
    if "level_zones s1 ! l \<noteq> []"
    using that unf by simp
  have blocked: "EmitLevelZone cfg s emit_zone = Blocked"
    if "level_zones s1 ! l = []" and "\<forall>z \<in> set (io_zones s1). \<not> acquirable_empty z"
  proof -
    from that(2) res have "r = None" by (cases r) (auto simp: eb)
    with that(1) unf alloc show ?thesis by (simp add: ok_def)
  qed
  have replace: "EmitLevelZone cfg s emit_zone =
      Returns (True, s1\<lparr>io_zones := (io_zones s1)[a := (io_zones s1 ! a)
                          \<lparr>busy := True, lifetime := lifetime (io_zones s ! emit_zone)\<rparr>],
                        level_zones := (level_zones s1)[l := [a]]\<rparr>)"
    if e: "level_zones s1 ! l = []" and a: "a < length (io_zones s)"
      "acquirable_empty (io_zones s1 ! a)" "\<forall>j < a. \<not> acquirable_empty (io_zones s1 ! j)" for a
  proof -
    from a(1,2) have "\<not> (\<forall>z \<in> set (io_zones s1). \<not> acquirable_empty z)"
      using eb(6) nth_mem by metis
    with res obtain a' where r: "r = Some a'" by (cases r) auto
    with res have a': "a' < length (io_zones s1)" "acquirable_empty (io_zones s1 ! a')"
      "\<forall>j < a'. \<not> acquirable_empty (io_zones s1 ! j)" by simp_all
    from a(2,3) a'(2,3) have "a' = a" by (intro first_acquirable_unique)
    with r have r: "r = Some a" by simp
    have lt: "lifetime (((io_zones s1)[a := (io_zones s1 ! a)\<lparr>busy := True\<rparr>]) ! emit_zone) =
        lifetime (io_zones s ! emit_zone)"
      using eb(4) a(1) eb(6) by (cases "a = emit_zone") simp_all
    from a(1) have "a < length (io_zones s1)" by (simp add: eb)
    with e unf alloc r lt show ?thesis by (simp add: ok_def)
  qed
  have post: "length (level_zones s') = length (level_zones s) \<and>
        level_zones s' ! l \<noteq> [] \<and>
        (\<forall>i < length (level_zones s). i \<noteq> l \<longrightarrow> level_zones s' ! i = level_zones s ! i) \<and>
        ((\<forall>b \<in> set (level_zones s). b \<noteq> []) \<longrightarrow> (\<forall>b \<in> set (level_zones s'). b \<noteq> [])) \<and>
        (replaced \<longrightarrow> open_io_zones s' = open_io_zones s \<and> active_io_zones s' = active_io_zones s) \<and>
        (\<not> replaced \<longrightarrow> open_io_zones s' = open_io_zones s - 1 \<and>
                       active_io_zones s' = active_io_zones s - 1)"
    if ret: "EmitLevelZone cfg s emit_zone = Returns (replaced, s')" for replaced s'
  proof -
    have "\<exists>b. b \<noteq> [] \<and> level_zones s' = (level_zones s)[l := b] \<and>
            (replaced \<longrightarrow> open_io_zones s' = open_io_zones s \<and> active_io_zones s' = active_io_zones s) \<and>
            (\<not> replaced \<longrightarrow> open_io_zones s' = open_io_zones s - 1 \<and>
                       active_io_zones s' = active_io_zones s - 1)"
    proof (cases "level_zones s1 ! l = []")
      case False
      from keep [OF False] ret
      have "\<not> replaced" and "s' = s1\<lparr>active_io_zones := active_io_zones s - 1, open_io_zones := open_io_zones s - 1\<rparr>"
        by simp_all
      with False l show ?thesis by (auto simp: lz1)
    next
      case True
      show ?thesis
      proof (cases r)
        case None
        with res have "\<forall>z \<in> set (io_zones s1). \<not> acquirable_empty z" by simp
        from blocked [OF True this] ret show ?thesis by simp
      next
        case (Some a)
        with res have "a < length (io_zones s)" "acquirable_empty (io_zones s1 ! a)"
          "\<forall>j < a. \<not> acquirable_empty (io_zones s1 ! j)" by (simp_all add: eb)
        from replace [OF True this] ret show ?thesis by (auto simp: lz1 eb)
      qed
    qed
    then obtain b where b: "b \<noteq> []" and lz: "level_zones s' = (level_zones s)[l := b]"
      and tok: "(replaced \<longrightarrow> open_io_zones s' = open_io_zones s \<and> active_io_zones s' = active_io_zones s) \<and>
            (\<not> replaced \<longrightarrow> open_io_zones s' = open_io_zones s - 1 \<and>
                       active_io_zones s' = active_io_zones s - 1)"
      by blast
    have "\<forall>b' \<in> set (level_zones s'). b' \<noteq> []" if "\<forall>b' \<in> set (level_zones s). b' \<noteq> []"
    proof
      fix b' assume "b' \<in> set (level_zones s')"
      then have "b' \<in> insert b (set (level_zones s))"
        using set_update_subset_insert lz by fastforce
      with that b show "b' \<noteq> []" by auto
    qed
    with b lz l tok show ?thesis by simp
  qed
  show ?thesis
    unfolding l_def [symmetric] s1_def [symmetric]
    using eb(1,2,3) keep blocked replace post by blast
qed

lemma EmitLevelZone_in_range_example:
  "level_zones (emitted cfg_ex emit_dev_ex 1) ! nat (emit_level cfg_ex emit_dev_ex 1) = [0] \<and>
   EmitLevelZone cfg_ex emit_dev_ex 1 =
     Returns (False, (emitted cfg_ex emit_dev_ex 1)\<lparr>active_io_zones := 2, open_io_zones := 2\<rparr>) \<and>
   level_zones (emitted cfg_ex emit_dev_ex 2) ! nat (emit_level cfg_ex emit_dev_ex 2) = [] \<and>
   EmitLevelZone cfg_ex emit_dev_ex 2 =
     Returns (True, (emitted cfg_ex emit_dev_ex 2)
       \<lparr>io_zones := (io_zones (emitted cfg_ex emit_dev_ex 2))
           [3 := (io_zones (emitted cfg_ex emit_dev_ex 2) ! 3)\<lparr>busy := True, lifetime := 4\<rparr>],
        level_zones := (level_zones (emitted cfg_ex emit_dev_ex 2))[1 := [3]]\<rparr>)"
proof -
  have l1: "emit_level cfg_ex emit_dev_ex 1 = 0" and l2: "emit_level cfg_ex emit_dev_ex 2 = 1"
    by (simp_all add: emit_level_def emit_dev_ex_def cfg_ex_def)
  have n: "(1 :: nat) < length (io_zones emit_dev_ex)" "(2 :: nat) < length (io_zones emit_dev_ex)"
    "(3 :: nat) < length (io_zones emit_dev_ex)"
    "nat 0 < length (level_zones emit_dev_ex)" "nat 1 < length (level_zones emit_dev_ex)"
    by (simp_all add: emit_dev_ex_def)
  have b1: "level_zones (emitted cfg_ex emit_dev_ex 1) ! nat 0 = [0]"
    unfolding emitted_def l1 by (simp add: emit_dev_ex_def)
  have b2: "level_zones (emitted cfg_ex emit_dev_ex 2) ! nat 1 = []"
    unfolding emitted_def l2 by (simp add: emit_dev_ex_def)
  have z: "io_zones (emitted cfg_ex emit_dev_ex 2) =
      (io_zones emit_dev_ex)[2 := (io_zones emit_dev_ex ! 2)\<lparr>useinlevelzone := False, busy := False\<rparr>]"
    by (simp add: emitted_def)
  have a3: "acquirable_empty (io_zones (emitted cfg_ex emit_dev_ex 2) ! 3)"
    by (simp add: z) (simp add: emit_dev_ex_def acquirable_empty_def Zone_new_def IsEmpty_def)
  have first: "\<forall>j < 3. \<not> acquirable_empty (io_zones (emitted cfg_ex emit_dev_ex 2) ! j)"
  proof (intro allI impI)
    fix j :: nat assume "j < 3"
    then have "j = 0 \<or> j = 1 \<or> j = 2" by arith
    then show "\<not> acquirable_empty (io_zones (emitted cfg_ex emit_dev_ex 2) ! j)"
      by (auto simp: z) (simp_all add: emit_dev_ex_def acquirable_empty_def IsEmpty_def)
  qed
  have lt: "lifetime (io_zones emit_dev_ex ! 2) = 4" "active_io_zones emit_dev_ex - 1 = 2"
    "open_io_zones emit_dev_ex - 1 = 2"
    by (simp_all add: emit_dev_ex_def)
  note s1 = EmitLevelZone_in_range [of 1 emit_dev_ex cfg_ex, unfolded l1, OF n(1) order_refl n(4)]
  note s2 = EmitLevelZone_in_range [of 2 emit_dev_ex cfg_ex, unfolded l2, OF n(2) _ n(5)]
  from b1 have ne: "level_zones (emitted cfg_ex emit_dev_ex 1) ! nat 0 \<noteq> []" by simp
  have le: "(0 :: int) \<le> 1" by simp
  note k = s1 [THEN conjunct2, THEN conjunct1, THEN mp, OF ne]
  note p = s2 [OF le, THEN conjunct2, THEN conjunct2, THEN conjunct1, THEN mp, OF b2,
               THEN conjunct2, THEN spec, of 3, THEN mp, OF conjI [OF n(3) conjI [OF a3 first]]]
  from k have r1: "EmitLevelZone cfg_ex emit_dev_ex 1 =
     Returns (False, (emitted cfg_ex emit_dev_ex 1)\<lparr>active_io_zones := 2, open_io_zones := 2\<rparr>)"
    by (simp only: lt)
  from p have r2: "EmitLevelZone cfg_ex emit_dev_ex 2 =
     Returns (True, (emitted cfg_ex emit_dev_ex 2)
       \<lparr>io_zones := (io_zones (emitted cfg_ex emit_dev_ex 2))
           [3 := (io_zones (emitted cfg_ex emit_dev_ex 2) ! 3)\<lparr>busy := True, lifetime := 4\<rparr>],
        level_zones := (level_zones (emitted cfg_ex emit_dev_ex 2))[1 := [3]]\<rparr>)"
    by (simp only: lt nat_1 One_nat_def)
  from b1 r1 b2 r2 show ?thesis unfolding l1 l2 by (intro conjI)
qed


text \<open>
  The zone that the part of \<open>AllocateIOZone\<close> under the mutex hands out is in the bucket
  of the lifetime it was called with: it was an idle zone of that bucket, or it is a
  zone newly opened for that lifetime, for which both tokens were charged.
\<close>

lemma AllocateIOZone_locked_bucket:
  assumes "AllocateIOZone_locked cfg s fl = Returns (OK, Some z, s')"
  shows "0 \<le> fl - lifetime_begin cfg \<and>
         nat (fl - lifetime_begin cfg) < length (level_zones s') \<and>
         z \<in> set (level_zones s' ! nat (fl - lifetime_begin cfg)) \<and>
         (\<not> 0 < level_active_io_zones s ! nat (fl - lifetime_begin cfg) \<longrightarrow>
            lifetime (io_zones s' ! z) = fl \<and> busy (io_zones s' ! z) \<and>
            useinlevelzone (io_zones s' ! z) \<and>
            open_io_zones s' = open_io_zones s + 1 \<and> active_io_zones s' = active_io_zones s + 1) \<and>
         (0 < level_active_io_zones s ! nat (fl - lifetime_begin cfg) \<longrightarrow>
            z \<in> set (level_zones s ! nat (fl - lifetime_begin cfg)) \<and>
            \<not> useinlevelzone (io_zones s ! z) \<and>
            open_io_zones s' = open_io_zones s \<and> active_io_zones s' = active_io_zones s)"
proof -
  define l where "l = nat (fl - lifetime_begin cfg)"
  from assms have rng: "0 \<le> fl - lifetime_begin cfg" "l < length (level_active_io_zones s)"
    "l < length (level_zones s)"
    by (auto simp: AllocateIOZone_locked_def Let_def l_def split: if_splits)
  show ?thesis
  proof (cases "0 < level_active_io_zones s ! l")
    case True
    with assms rng obtain
      f: "find (\<lambda>z. \<not> useinlevelzone (io_zones s ! z)) (level_zones s ! l) = Some z"
      and s': "s' = s\<lparr>level_active_io_zones := (level_active_io_zones s)[l := level_active_io_zones s ! l - 1],
                      io_zones := (io_zones s)[z := (io_zones s ! z)\<lparr>useinlevelzone := True\<rparr>]\<rparr>"
      by (auto simp: AllocateIOZone_locked_def Let_def l_def split: if_splits option.splits)
    from f have "z \<in> set (level_zones s ! l)" "\<not> useinlevelzone (io_zones s ! z)"
      by (auto simp: find_Some_iff)
    with True rng s' show ?thesis by (simp add: l_def [symmetric])
  next
    case False
    let ?s1 = "s\<lparr>open_io_zones := open_io_zones s + 1, active_io_zones := active_io_zones s + 1\<rparr>"
    from AllocateEmptyZone_result [of ?s1] obtain r where
      alloc: "AllocateEmptyZone ?s1 =
          Returns (OK, r,
            case r of None \<Rightarrow> ?s1
            | Some a \<Rightarrow> ?s1\<lparr>io_zones := (io_zones ?s1)[a := (io_zones ?s1 ! a)\<lparr>busy := True\<rparr>]\<rparr>)"
      and res: "case r of
          None \<Rightarrow> \<forall>z \<in> set (io_zones ?s1). \<not> acquirable_empty z
        | Some a \<Rightarrow> a < length (io_zones ?s1) \<and> acquirable_empty (io_zones ?s1 ! a) \<and>
            (\<forall>j < a. \<not> acquirable_empty (io_zones ?s1 ! j))"
      by blast
    from assms rng False alloc have r: "r = Some z"
      by (cases r) (auto simp: AllocateIOZone_locked_def Let_def l_def ok_def split: if_splits)
    with res have z: "z < length (io_zones s)" by simp
    from assms rng False alloc r z
    have s': "s' = ?s1\<lparr>io_zones := (io_zones s)[z := (io_zones s ! z)\<lparr>busy := True, lifetime := fl, useinlevelzone := True\<rparr>],
                        level_zones := (level_zones s)[l := bucket_insert z (level_zones s ! l)]\<rparr>"
      by (auto simp: AllocateIOZone_locked_def Let_def l_def ok_def split: if_splits)
    from False rng z s' show ?thesis by (simp add: l_def [symmetric])
  qed
qed

text \<open>A zone that \<open>AllocateIOZone\<close> hands out comes from its part under the mutex.\<close>

lemma obind_Returns:
  "obind m f = Returns y \<longleftrightarrow> (\<exists>x. m = Returns x \<and> f x = Returns y)"
  by (cases m) simp_all

lemma AllocateIOZone_via_locked:
  assumes "AllocateIOZone cfg be s fl io fid = Returns (st, Some z, s')"
  shows "\<exists>s2. AllocateIOZone_locked cfg s2 (effective_lifetime cfg fl fid) = Returns (st, Some z, s') \<and>
              (io = kWAL \<longrightarrow> s2 = s)"
proof (cases "io = kWAL")
  case True
  with assms show ?thesis
    by (auto simp: AllocateIOZone_def AllocateIOZone_checked_def Let_def split: if_splits)
next
  case False
  with assms have "AllocateIOZone_checked cfg be s fl io fid = Returns (st, Some z, s')"
    by (auto simp: AllocateIOZone_def Let_def split: if_splits)
  with False obtain st1 s1 where
    "(if \<not> ok st1 then Returns (st1, None, s1)
      else obind (ResetUnusedIOZones cfg be s1) (\<lambda>(st2, s2).
             if \<not> ok st2 then Returns (st2, None, s2)
             else AllocateIOZone_locked cfg s2 (effective_lifetime cfg fl fid))) = Returns (st, Some z, s')"
    by (auto simp: AllocateIOZone_checked_def obind_Returns)
  then have "obind (ResetUnusedIOZones cfg be s1) (\<lambda>(st2, s2).
             if \<not> ok st2 then Returns (st2, None, s2)
             else AllocateIOZone_locked cfg s2 (effective_lifetime cfg fl fid)) = Returns (st, Some z, s')"
    by (simp split: if_splits)
  then obtain st2 s2 where
    "(if \<not> ok st2 then Returns (st2, None, s2)
      else AllocateIOZone_locked cfg s2 (effective_lifetime cfg fl fid)) = Returns (st, Some z, s')"
    by (auto simp: obind_Returns)
  then have "AllocateIOZone_locked cfg s2 (effective_lifetime cfg fl fid) = Returns (st, Some z, s')"
    by (simp split: if_splits)
  with False show ?thesis by blast
qed

text \<open>
  The branch that opens a new zone returns when the bucket has no idle zone, the open
  cap has room and the registry has an idle empty zone.
\<close>

lemma AllocateIOZone_locked_new:
  assumes "0 \<le> fl - lifetime_begin cfg"
    and "nat (fl - lifetime_begin cfg) < length (level_active_io_zones s)"
    and "nat (fl - lifetime_begin cfg) < length (level_zones s)"
    and "\<not> 0 < level_active_io_zones s ! nat (fl - lifetime_begin cfg)"
    and "open_io_zones s < uint (max_nr_open_io_zones cfg)"
    and "a < length (io_zones s)" and "acquirable_empty (io_zones s ! a)"
    and "\<forall>j < a. \<not> acquirable_empty (io_zones s ! j)"
  shows "AllocateIOZone_locked cfg s fl =
     Returns (OK, Some a,
       s\<lparr>open_io_zones := open_io_zones s + 1, active_io_zones := active_io_zones s + 1,
         io_zones := (io_zones s)[a := (io_zones s ! a)\<lparr>busy := True, lifetime := fl, useinlevelzone := True\<rparr>],
         level_zones := (level_zones s)[nat (fl - lifetime_begin cfg) :=
            bucket_insert a (level_zones s ! nat (fl - lifetime_begin cfg))]\<rparr>)"
proof -
  let ?s1 = "s\<lparr>open_io_zones := open_io_zones s + 1, active_io_zones := active_io_zones s + 1\<rparr>"
  from AllocateEmptyZone_result [of ?s1] obtain r where
    alloc: "AllocateEmptyZone ?s1 =
        Returns (OK, r,
          case r of None \<Rightarrow> ?s1
          | Some a \<Rightarrow> ?s1\<lparr>io_zones := (io_zones ?s1)[a := (io_zones ?s1 ! a)\<lparr>busy := True\<rparr>]\<rparr>)"
    and res: "case r of
        None \<Rightarrow> \<forall>z \<in> set (io_zones ?s1). \<not> acquirable_empty z
      | Some a \<Rightarrow> a < length (io_zones ?s1) \<and> acquirable_empty (io_zones ?s1 ! a) \<and>
          (\<forall>j < a. \<not> acquirable_empty (io_zones ?s1 ! j))"
    by blast
  from assms(6,7) have "\<not> (\<forall>z \<in> set (io_zones s). \<not> acquirable_empty z)"
    using nth_mem by blast
  with res obtain a' where r: "r = Some a'" by (cases r) auto
  with res have "acquirable_empty (io_zones s ! a')" "\<forall>j < a'. \<not> acquirable_empty (io_zones s ! j)"
    by simp_all
  with assms(7,8) have "a' = a" by (intro first_acquirable_unique)
  with r have r: "r = Some a" by simp
  from assms(1-6) alloc r show ?thesis
    by (simp add: AllocateIOZone_locked_def Let_def ok_def IsBusy_def)
qed

text \<open>
  The branch that hands out an idle zone: the first zone of the bucket that is not
  leased, when it is busy.
\<close>

lemma find_first:
  assumes "i < length b" and "P (b ! i)" and "\<forall>j < i. \<not> P (b ! j)"
  shows "find P b = Some (b ! i)"
  using assms by (auto simp: find_Some_iff)

lemma AllocateIOZone_locked_idle:
  assumes "0 \<le> fl - lifetime_begin cfg"
    and "nat (fl - lifetime_begin cfg) < length (level_active_io_zones s)"
    and "nat (fl - lifetime_begin cfg) < length (level_zones s)"
    and "0 < level_active_io_zones s ! nat (fl - lifetime_begin cfg)"
    and "i < length (level_zones s ! nat (fl - lifetime_begin cfg))"
    and "\<not> useinlevelzone (io_zones s ! (level_zones s ! nat (fl - lifetime_begin cfg) ! i))"
    and "\<forall>j < i. useinlevelzone (io_zones s ! (level_zones s ! nat (fl - lifetime_begin cfg) ! j))"
  shows "AllocateIOZone_locked cfg s fl =
     (if busy (io_zones s ! (level_zones s ! nat (fl - lifetime_begin cfg) ! i))
      then Returns (OK, Some (level_zones s ! nat (fl - lifetime_begin cfg) ! i),
             s\<lparr>level_active_io_zones := (level_active_io_zones s)[nat (fl - lifetime_begin cfg) :=
                   level_active_io_zones s ! nat (fl - lifetime_begin cfg) - 1],
               io_zones := (io_zones s)[level_zones s ! nat (fl - lifetime_begin cfg) ! i :=
                   (io_zones s ! (level_zones s ! nat (fl - lifetime_begin cfg) ! i))\<lparr>useinlevelzone := True\<rparr>]\<rparr>)
      else Aborted)"
proof -
  define l where "l = nat (fl - lifetime_begin cfg)"
  from assms(5-7) have "find (\<lambda>z. \<not> useinlevelzone (io_zones s ! z)) (level_zones s ! l) =
      Some (level_zones s ! l ! i)"
    unfolding l_def [symmetric] by (intro find_first) simp_all
  with assms(1-4) show ?thesis
    unfolding l_def [symmetric]
    by (simp add: AllocateIOZone_locked_def Let_def l_def [symmetric] IsBusy_def not_less)
qed

lemma AllocateIOZone_locked_all_leased:
  assumes "0 \<le> fl - lifetime_begin cfg"
    and "nat (fl - lifetime_begin cfg) < length (level_active_io_zones s)"
    and "nat (fl - lifetime_begin cfg) < length (level_zones s)"
    and "0 < level_active_io_zones s ! nat (fl - lifetime_begin cfg)"
    and "\<forall>y \<in> set (level_zones s ! nat (fl - lifetime_begin cfg)). useinlevelzone (io_zones s ! y)"
  shows "AllocateIOZone_locked cfg s fl = Undefined"
proof -
  define l where "l = nat (fl - lifetime_begin cfg)"
  from assms(5) have "find (\<lambda>z. \<not> useinlevelzone (io_zones s ! z)) (level_zones s ! l) = None"
    unfolding l_def [symmetric] by (simp add: find_None_iff)
  with assms(1-4) show ?thesis
    unfolding l_def [symmetric]
    by (simp add: AllocateIOZone_locked_def Let_def l_def [symmetric] not_less)
qed

lemma AllocateIOZone_locked_out_of_range:
  assumes "fl - lifetime_begin cfg < 0 \<or> \<not> nat (fl - lifetime_begin cfg) < length (level_active_io_zones s) \<or>
           \<not> nat (fl - lifetime_begin cfg) < length (level_zones s)"
  shows "AllocateIOZone_locked cfg s fl = Undefined"
  using assms by (auto simp: AllocateIOZone_locked_def Let_def)

lemma AllocateIOZone_locked_waits:
  assumes "0 \<le> fl - lifetime_begin cfg"
    and "nat (fl - lifetime_begin cfg) < length (level_active_io_zones s)"
    and "nat (fl - lifetime_begin cfg) < length (level_zones s)"
    and "\<not> 0 < level_active_io_zones s ! nat (fl - lifetime_begin cfg)"
    and "\<not> open_io_zones s < uint (max_nr_open_io_zones cfg)"
  shows "AllocateIOZone_locked cfg s fl = Blocked"
  using assms by (simp add: AllocateIOZone_locked_def Let_def not_less)

lemma AllocateIOZone_locked_no_empty:
  assumes "0 \<le> fl - lifetime_begin cfg"
    and "nat (fl - lifetime_begin cfg) < length (level_active_io_zones s)"
    and "nat (fl - lifetime_begin cfg) < length (level_zones s)"
    and "\<not> 0 < level_active_io_zones s ! nat (fl - lifetime_begin cfg)"
    and "open_io_zones s < uint (max_nr_open_io_zones cfg)"
    and "\<forall>z \<in> set (io_zones s). \<not> acquirable_empty z"
  shows "AllocateIOZone_locked cfg s fl = Blocked"
proof -
  let ?s1 = "s\<lparr>open_io_zones := open_io_zones s + 1, active_io_zones := active_io_zones s + 1\<rparr>"
  from AllocateEmptyZone_result [of ?s1] obtain r where
    alloc: "AllocateEmptyZone ?s1 =
        Returns (OK, r,
          case r of None \<Rightarrow> ?s1
          | Some a \<Rightarrow> ?s1\<lparr>io_zones := (io_zones ?s1)[a := (io_zones ?s1 ! a)\<lparr>busy := True\<rparr>]\<rparr>)"
    and res: "case r of
        None \<Rightarrow> \<forall>z \<in> set (io_zones ?s1). \<not> acquirable_empty z
      | Some a \<Rightarrow> a < length (io_zones ?s1) \<and> acquirable_empty (io_zones ?s1 ! a) \<and>
          (\<forall>j < a. \<not> acquirable_empty (io_zones ?s1 ! j))"
    by blast
  from res assms(6) have "r = None" by (cases r) auto
  with assms(1-5) alloc show ?thesis
    by (simp add: AllocateIOZone_locked_def Let_def ok_def not_less)
qed

text \<open>
  C3. \<open>AllocateIOZone\<close> works with the lifetime \<open>eff\<close>: for a hint below \<open>WLTH_SHORT\<close> it is
  \<open>lifetime_begin_\<close> when the file id is 5 and 8 for every other file, and a hint at or
  above \<open>WLTH_SHORT\<close> is used as it is. Past the check of the deferred error, a call for
  the write-ahead log is the part under the mutex run with \<open>eff\<close> on the state of the
  call, and any other call is that part run with \<open>eff\<close> on the state that the maintenance
  leaves. A zone that the call hands out is in the bucket of index \<open>eff - lifetime_begin_\<close>.
  The part under the mutex, on a state \<open>t\<close>: with the index out of range the behaviour is
  undefined; otherwise the call waits while the bucket has no idle zone and the open cap
  no room; with an idle zone counted, it hands out the first zone of the bucket that is
  not leased, leased now and the count one less (it aborts if that zone is not busy, and
  dereferences a null pointer if every zone is leased); without, it charges both tokens
  and hands out the first idle empty zone of the registry, bound to lifetime \<open>eff\<close>,
  leased and inserted in the bucket (it waits while there is none).
\<close>

theorem AllocateIOZone_lifetime_spec:
  fixes cfg :: Config and file_lifetime :: int and file_id :: "64 word" and t :: ZonedBlockDevice
  defines "eff \<equiv> effective_lifetime cfg file_lifetime file_id"
  defines "l \<equiv> nat (eff - lifetime_begin cfg)"
  shows
    "(file_lifetime < WLTH_SHORT \<and> file_id = 5 \<longrightarrow> eff = lifetime_begin cfg) \<and>
     (file_lifetime < WLTH_SHORT \<and> file_id \<noteq> 5 \<longrightarrow> eff = 8) \<and>
     (\<not> file_lifetime < WLTH_SHORT \<longrightarrow> eff = file_lifetime) \<and>
     (zone_deferred_status s = OK \<and> io_type = kWAL \<longrightarrow>
        AllocateIOZone cfg be s file_lifetime io_type file_id = AllocateIOZone_locked cfg s eff) \<and>
     (zone_deferred_status s = OK \<and> io_type \<noteq> kWAL \<and>
      ApplyFinishThreshold cfg be s = Returns (OK, s1) \<and>
      ResetUnusedIOZones cfg be s1 = Returns (OK, s2) \<longrightarrow>
        AllocateIOZone cfg be s file_lifetime io_type file_id = AllocateIOZone_locked cfg s2 eff) \<and>
     (\<forall>z s'. AllocateIOZone cfg be s file_lifetime io_type file_id = Returns (OK, Some z, s') \<longrightarrow>
        0 \<le> eff - lifetime_begin cfg \<and> l < length (level_zones s') \<and>
        z \<in> set (level_zones s' ! l)) \<and>
     (eff - lifetime_begin cfg < 0 \<or> \<not> l < length (level_active_io_zones t) \<or>
      \<not> l < length (level_zones t) \<longrightarrow>
        AllocateIOZone_locked cfg t eff = Undefined) \<and>
     (0 \<le> eff - lifetime_begin cfg \<and> l < length (level_active_io_zones t) \<and>
      l < length (level_zones t) \<longrightarrow>
        (\<not> 0 < level_active_io_zones t ! l \<and> \<not> open_io_zones t < uint (max_nr_open_io_zones cfg) \<longrightarrow>
           AllocateIOZone_locked cfg t eff = Blocked) \<and>
        (0 < level_active_io_zones t ! l \<longrightarrow>
           (\<forall>i. i < length (level_zones t ! l) \<and>
                \<not> useinlevelzone (io_zones t ! (level_zones t ! l ! i)) \<and>
                (\<forall>j < i. useinlevelzone (io_zones t ! (level_zones t ! l ! j))) \<longrightarrow>
              AllocateIOZone_locked cfg t eff =
                (if busy (io_zones t ! (level_zones t ! l ! i))
                 then Returns (OK, Some (level_zones t ! l ! i),
                        t\<lparr>level_active_io_zones := (level_active_io_zones t)[l :=
                              level_active_io_zones t ! l - 1],
                          io_zones := (io_zones t)[level_zones t ! l ! i :=
                              (io_zones t ! (level_zones t ! l ! i))\<lparr>useinlevelzone := True\<rparr>]\<rparr>)
                 else Aborted)) \<and>
           ((\<forall>y \<in> set (level_zones t ! l). useinlevelzone (io_zones t ! y)) \<longrightarrow>
              AllocateIOZone_locked cfg t eff = Undefined)) \<and>
        (\<not> 0 < level_active_io_zones t ! l \<and> open_io_zones t < uint (max_nr_open_io_zones cfg) \<longrightarrow>
           (\<forall>a. a < length (io_zones t) \<and> acquirable_empty (io_zones t ! a) \<and>
                (\<forall>j < a. \<not> acquirable_empty (io_zones t ! j)) \<longrightarrow>
              AllocateIOZone_locked cfg t eff =
                Returns (OK, Some a,
                  t\<lparr>open_io_zones := open_io_zones t + 1, active_io_zones := active_io_zones t + 1,
                    io_zones := (io_zones t)[a := (io_zones t ! a)\<lparr>busy := True, lifetime := eff, useinlevelzone := True\<rparr>],
                    level_zones := (level_zones t)[l := bucket_insert a (level_zones t ! l)]\<rparr>)) \<and>
           ((\<forall>z \<in> set (io_zones t). \<not> acquirable_empty z) \<longrightarrow>
              AllocateIOZone_locked cfg t eff = Blocked)))"
proof -
  have A1: "file_lifetime < WLTH_SHORT \<and> file_id = 5 \<longrightarrow> eff = lifetime_begin cfg"
    by (simp add: eff_def effective_lifetime_def)
  have A2: "file_lifetime < WLTH_SHORT \<and> file_id \<noteq> 5 \<longrightarrow> eff = 8"
    by (simp add: eff_def effective_lifetime_def)
  have A3: "\<not> file_lifetime < WLTH_SHORT \<longrightarrow> eff = file_lifetime"
    by (simp add: eff_def effective_lifetime_def)
  have B1: "zone_deferred_status s = OK \<and> io_type = kWAL \<longrightarrow>
        AllocateIOZone cfg be s file_lifetime io_type file_id = AllocateIOZone_locked cfg s eff"
    by (simp add: AllocateIOZone_def AllocateIOZone_checked_def GetZoneDeferredStatus_def ok_def eff_def)
  have B2: "zone_deferred_status s = OK \<and> io_type \<noteq> kWAL \<and>
      ApplyFinishThreshold cfg be s = Returns (OK, s1) \<and>
      ResetUnusedIOZones cfg be s1 = Returns (OK, s2) \<longrightarrow>
        AllocateIOZone cfg be s file_lifetime io_type file_id = AllocateIOZone_locked cfg s2 eff"
    by (simp add: AllocateIOZone_def AllocateIOZone_checked_def GetZoneDeferredStatus_def ok_def eff_def)
  have B3: "\<forall>z s'. AllocateIOZone cfg be s file_lifetime io_type file_id = Returns (OK, Some z, s') \<longrightarrow>
        0 \<le> eff - lifetime_begin cfg \<and> l < length (level_zones s') \<and>
        z \<in> set (level_zones s' ! l)"
  proof (intro allI impI)
    fix z s'
    assume ret: "AllocateIOZone cfg be s file_lifetime io_type file_id = Returns (OK, Some z, s')"
    from AllocateIOZone_via_locked [OF ret] obtain s2 where
      locked: "AllocateIOZone_locked cfg s2 eff = Returns (OK, Some z, s')"
      by (auto simp: eff_def)
    from AllocateIOZone_locked_bucket [OF locked, folded l_def]
    show "0 \<le> eff - lifetime_begin cfg \<and> l < length (level_zones s') \<and> z \<in> set (level_zones s' ! l)"
      by simp
  qed
  have C1: "eff - lifetime_begin cfg < 0 \<or> \<not> l < length (level_active_io_zones t) \<or>
      \<not> l < length (level_zones t) \<longrightarrow>
        AllocateIOZone_locked cfg t eff = Undefined"
    unfolding l_def by (intro impI AllocateIOZone_locked_out_of_range)
  have C2: "0 \<le> eff - lifetime_begin cfg \<and> l < length (level_active_io_zones t) \<and>
      l < length (level_zones t) \<longrightarrow>
        (\<not> 0 < level_active_io_zones t ! l \<and> \<not> open_io_zones t < uint (max_nr_open_io_zones cfg) \<longrightarrow>
           AllocateIOZone_locked cfg t eff = Blocked) \<and>
        (0 < level_active_io_zones t ! l \<longrightarrow>
           (\<forall>i. i < length (level_zones t ! l) \<and>
                \<not> useinlevelzone (io_zones t ! (level_zones t ! l ! i)) \<and>
                (\<forall>j < i. useinlevelzone (io_zones t ! (level_zones t ! l ! j))) \<longrightarrow>
              AllocateIOZone_locked cfg t eff =
                (if busy (io_zones t ! (level_zones t ! l ! i))
                 then Returns (OK, Some (level_zones t ! l ! i),
                        t\<lparr>level_active_io_zones := (level_active_io_zones t)[l :=
                              level_active_io_zones t ! l - 1],
                          io_zones := (io_zones t)[level_zones t ! l ! i :=
                              (io_zones t ! (level_zones t ! l ! i))\<lparr>useinlevelzone := True\<rparr>]\<rparr>)
                 else Aborted)) \<and>
           ((\<forall>y \<in> set (level_zones t ! l). useinlevelzone (io_zones t ! y)) \<longrightarrow>
              AllocateIOZone_locked cfg t eff = Undefined)) \<and>
        (\<not> 0 < level_active_io_zones t ! l \<and> open_io_zones t < uint (max_nr_open_io_zones cfg) \<longrightarrow>
           (\<forall>a. a < length (io_zones t) \<and> acquirable_empty (io_zones t ! a) \<and>
                (\<forall>j < a. \<not> acquirable_empty (io_zones t ! j)) \<longrightarrow>
              AllocateIOZone_locked cfg t eff =
                Returns (OK, Some a,
                  t\<lparr>open_io_zones := open_io_zones t + 1, active_io_zones := active_io_zones t + 1,
                    io_zones := (io_zones t)[a := (io_zones t ! a)\<lparr>busy := True, lifetime := eff, useinlevelzone := True\<rparr>],
                    level_zones := (level_zones t)[l := bucket_insert a (level_zones t ! l)]\<rparr>)) \<and>
           ((\<forall>z \<in> set (io_zones t). \<not> acquirable_empty z) \<longrightarrow>
              AllocateIOZone_locked cfg t eff = Blocked))"
  proof (intro impI)
    assume rng: "0 \<le> eff - lifetime_begin cfg \<and> l < length (level_active_io_zones t) \<and>
      l < length (level_zones t)"
    then have r: "0 \<le> eff - lifetime_begin cfg"
      "nat (eff - lifetime_begin cfg) < length (level_active_io_zones t)"
      "nat (eff - lifetime_begin cfg) < length (level_zones t)"
      by (simp_all add: l_def)
    note waits = AllocateIOZone_locked_waits [OF r, folded l_def]
    note idle = AllocateIOZone_locked_idle [OF r, folded l_def]
    note leased = AllocateIOZone_locked_all_leased [OF r, folded l_def]
    note new = AllocateIOZone_locked_new [OF r, folded l_def]
    note none = AllocateIOZone_locked_no_empty [OF r, folded l_def]
    show "(\<not> 0 < level_active_io_zones t ! l \<and> \<not> open_io_zones t < uint (max_nr_open_io_zones cfg) \<longrightarrow>
           AllocateIOZone_locked cfg t eff = Blocked) \<and>
        (0 < level_active_io_zones t ! l \<longrightarrow>
           (\<forall>i. i < length (level_zones t ! l) \<and>
                \<not> useinlevelzone (io_zones t ! (level_zones t ! l ! i)) \<and>
                (\<forall>j < i. useinlevelzone (io_zones t ! (level_zones t ! l ! j))) \<longrightarrow>
              AllocateIOZone_locked cfg t eff =
                (if busy (io_zones t ! (level_zones t ! l ! i))
                 then Returns (OK, Some (level_zones t ! l ! i),
                        t\<lparr>level_active_io_zones := (level_active_io_zones t)[l :=
                              level_active_io_zones t ! l - 1],
                          io_zones := (io_zones t)[level_zones t ! l ! i :=
                              (io_zones t ! (level_zones t ! l ! i))\<lparr>useinlevelzone := True\<rparr>]\<rparr>)
                 else Aborted)) \<and>
           ((\<forall>y \<in> set (level_zones t ! l). useinlevelzone (io_zones t ! y)) \<longrightarrow>
              AllocateIOZone_locked cfg t eff = Undefined)) \<and>
        (\<not> 0 < level_active_io_zones t ! l \<and> open_io_zones t < uint (max_nr_open_io_zones cfg) \<longrightarrow>
           (\<forall>a. a < length (io_zones t) \<and> acquirable_empty (io_zones t ! a) \<and>
                (\<forall>j < a. \<not> acquirable_empty (io_zones t ! j)) \<longrightarrow>
              AllocateIOZone_locked cfg t eff =
                Returns (OK, Some a,
                  t\<lparr>open_io_zones := open_io_zones t + 1, active_io_zones := active_io_zones t + 1,
                    io_zones := (io_zones t)[a := (io_zones t ! a)\<lparr>busy := True, lifetime := eff, useinlevelzone := True\<rparr>],
                    level_zones := (level_zones t)[l := bucket_insert a (level_zones t ! l)]\<rparr>)) \<and>
           ((\<forall>z \<in> set (io_zones t). \<not> acquirable_empty z) \<longrightarrow>
              AllocateIOZone_locked cfg t eff = Blocked))"
    proof (intro conjI impI allI)
      assume "\<not> 0 < level_active_io_zones t ! l \<and> \<not> open_io_zones t < uint (max_nr_open_io_zones cfg)"
      then show "AllocateIOZone_locked cfg t eff = Blocked" by (intro waits) simp_all
    next
      fix i
      assume "0 < level_active_io_zones t ! l"
        and "i < length (level_zones t ! l) \<and>
                \<not> useinlevelzone (io_zones t ! (level_zones t ! l ! i)) \<and>
                (\<forall>j < i. useinlevelzone (io_zones t ! (level_zones t ! l ! j)))"
      then show "AllocateIOZone_locked cfg t eff =
                (if busy (io_zones t ! (level_zones t ! l ! i))
                 then Returns (OK, Some (level_zones t ! l ! i),
                        t\<lparr>level_active_io_zones := (level_active_io_zones t)[l :=
                              level_active_io_zones t ! l - 1],
                          io_zones := (io_zones t)[level_zones t ! l ! i :=
                              (io_zones t ! (level_zones t ! l ! i))\<lparr>useinlevelzone := True\<rparr>]\<rparr>)
                 else Aborted)"
        by (intro idle) simp_all
    next
      assume "0 < level_active_io_zones t ! l"
        and "\<forall>y \<in> set (level_zones t ! l). useinlevelzone (io_zones t ! y)"
      then show "AllocateIOZone_locked cfg t eff = Undefined" by (intro leased)
    next
      fix a
      assume "\<not> 0 < level_active_io_zones t ! l \<and> open_io_zones t < uint (max_nr_open_io_zones cfg)"
        and "a < length (io_zones t) \<and> acquirable_empty (io_zones t ! a) \<and>
                (\<forall>j < a. \<not> acquirable_empty (io_zones t ! j))"
      then show "AllocateIOZone_locked cfg t eff =
                Returns (OK, Some a,
                  t\<lparr>open_io_zones := open_io_zones t + 1, active_io_zones := active_io_zones t + 1,
                    io_zones := (io_zones t)[a := (io_zones t ! a)\<lparr>busy := True, lifetime := eff, useinlevelzone := True\<rparr>],
                    level_zones := (level_zones t)[l := bucket_insert a (level_zones t ! l)]\<rparr>)"
        by (intro new) simp_all
    next
      assume "\<not> 0 < level_active_io_zones t ! l \<and> open_io_zones t < uint (max_nr_open_io_zones cfg)"
        and "\<forall>z \<in> set (io_zones t). \<not> acquirable_empty z"
      then show "AllocateIOZone_locked cfg t eff = Blocked" by (intro none) simp_all
    qed
  qed
  from A1 A2 A3 B1 B2 B3 C1 C2 show ?thesis by (intro conjI)
qed

theorem AllocateIOZone_lifetime_spec_witness:
  "effective_lifetime cfg_ex WLTH_NONE 7 = 8 \<and>
   AllocateIOZone cfg_ex backend_ex dev_ex WLTH_NONE kOther 7 =
     Returns (OK, Some 0,
       dev_ex\<lparr>open_io_zones := open_io_zones dev_ex + 1, active_io_zones := active_io_zones dev_ex + 1,
         io_zones := (io_zones dev_ex)[0 := (io_zones dev_ex ! 0)\<lparr>busy := True, lifetime := 8, useinlevelzone := True\<rparr>],
         level_zones := (level_zones dev_ex)[5 := bucket_insert 0 (level_zones dev_ex ! 5)]\<rparr>) \<and>
   0 \<in> set (level_zones
     (dev_ex\<lparr>open_io_zones := open_io_zones dev_ex + 1, active_io_zones := active_io_zones dev_ex + 1,
         io_zones := (io_zones dev_ex)[0 := (io_zones dev_ex ! 0)\<lparr>busy := True, lifetime := 8, useinlevelzone := True\<rparr>],
         level_zones := (level_zones dev_ex)[5 := bucket_insert 0 (level_zones dev_ex ! 5)]\<rparr>) ! 5) \<and>
   effective_lifetime cfg_ex WLTH_NONE 5 = lifetime_begin cfg_ex \<and>
   level_zones idle_dev_ex ! 0 = [0, 6] \<and>
   AllocateIOZone cfg_ex backend_ex idle_dev_ex WLTH_NONE kWAL 5 =
     Returns (OK, Some 0,
       idle_dev_ex\<lparr>level_active_io_zones := (level_active_io_zones idle_dev_ex)[0 := 1],
         io_zones := (io_zones idle_dev_ex)[0 := (io_zones idle_dev_ex ! 0)\<lparr>useinlevelzone := True\<rparr>]\<rparr>)"
proof -
  have lo: "WLTH_NONE < WLTH_SHORT" by (simp add: WLTH_NONE_def WLTH_SHORT_def)
  have lb: "lifetime_begin cfg_ex = 3" by (simp add: cfg_ex_def)
  have n5: "nat (8 - 3 :: int) = 5" and n0: "nat (3 - 3 :: int) = 0" by simp_all
  note spec7 = AllocateIOZone_lifetime_spec [where cfg = cfg_ex and be = backend_ex and s = dev_ex
      and ?s1.0 = dev_ex and ?s2.0 = dev_ex and t = dev_ex
      and file_lifetime = WLTH_NONE and io_type = kOther and file_id = 7]
  have id7: "WLTH_NONE < WLTH_SHORT \<and> (7 :: 64 word) \<noteq> 5" using lo by simp
  from spec7 [THEN conjunct2, THEN conjunct1, THEN mp, OF id7]
  have e7: "effective_lifetime cfg_ex WLTH_NONE 7 = 8" .
  note s7 = spec7 [unfolded e7 lb n5]
  have latch: "zone_deferred_status dev_ex = OK" by (simp add: dev_ex_def)
  have k: "kOther \<noteq> kWAL" by simp
  have aft: "ApplyFinishThreshold cfg_ex backend_ex dev_ex = Returns (OK, dev_ex)" by code_simp
  have ru: "ResetUnusedIOZones cfg_ex backend_ex dev_ex = Returns (OK, dev_ex)" by code_simp
  from s7 [THEN conjunct2, THEN conjunct2, THEN conjunct2, THEN conjunct2, THEN conjunct1, THEN mp,
           OF conjI [OF latch conjI [OF k conjI [OF aft ru]]]]
  have c7: "AllocateIOZone cfg_ex backend_ex dev_ex WLTH_NONE kOther 7 =
      AllocateIOZone_locked cfg_ex dev_ex 8" .
  have rng7: "(0 :: int) \<le> 8 - 3 \<and> 5 < length (level_active_io_zones dev_ex) \<and>
      5 < length (level_zones dev_ex)"
    by (simp add: dev_ex_def)
  have room: "\<not> 0 < level_active_io_zones dev_ex ! 5 \<and>
      open_io_zones dev_ex < uint (max_nr_open_io_zones cfg_ex)"
    by (simp add: dev_ex_def cfg_ex_def)
  have a0: "0 < length (io_zones dev_ex) \<and> acquirable_empty (io_zones dev_ex ! 0) \<and>
      (\<forall>j < 0. \<not> acquirable_empty (io_zones dev_ex ! j))"
    by (simp add: dev_ex_def acquirable_empty_def Zone_new_def IsEmpty_def)
  note C7 = s7 [THEN conjunct2, THEN conjunct2, THEN conjunct2, THEN conjunct2, THEN conjunct2,
                THEN conjunct2, THEN conjunct2]
  from C7 [THEN mp, OF rng7, THEN conjunct2, THEN conjunct2, THEN mp, OF room, THEN conjunct1,
           THEN spec, of 0, THEN mp, OF a0]
  have l7: "AllocateIOZone_locked cfg_ex dev_ex 8 =
     Returns (OK, Some 0,
       dev_ex\<lparr>open_io_zones := open_io_zones dev_ex + 1, active_io_zones := active_io_zones dev_ex + 1,
         io_zones := (io_zones dev_ex)[0 := (io_zones dev_ex ! 0)\<lparr>busy := True, lifetime := 8, useinlevelzone := True\<rparr>],
         level_zones := (level_zones dev_ex)[5 := bucket_insert 0 (level_zones dev_ex ! 5)]\<rparr>)" .
  from c7 l7 have w7: "AllocateIOZone cfg_ex backend_ex dev_ex WLTH_NONE kOther 7 =
     Returns (OK, Some 0,
       dev_ex\<lparr>open_io_zones := open_io_zones dev_ex + 1, active_io_zones := active_io_zones dev_ex + 1,
         io_zones := (io_zones dev_ex)[0 := (io_zones dev_ex ! 0)\<lparr>busy := True, lifetime := 8, useinlevelzone := True\<rparr>],
         level_zones := (level_zones dev_ex)[5 := bucket_insert 0 (level_zones dev_ex ! 5)]\<rparr>)"
    by (rule trans)
  from s7 [THEN conjunct2, THEN conjunct2, THEN conjunct2, THEN conjunct2, THEN conjunct2,
           THEN conjunct1, THEN spec, THEN spec, THEN mp, OF w7]
  have m7: "0 \<in> set (level_zones
     (dev_ex\<lparr>open_io_zones := open_io_zones dev_ex + 1, active_io_zones := active_io_zones dev_ex + 1,
         io_zones := (io_zones dev_ex)[0 := (io_zones dev_ex ! 0)\<lparr>busy := True, lifetime := 8, useinlevelzone := True\<rparr>],
         level_zones := (level_zones dev_ex)[5 := bucket_insert 0 (level_zones dev_ex ! 5)]\<rparr>) ! 5)"
    by (elim conjE)
  note spec5 = AllocateIOZone_lifetime_spec [where cfg = cfg_ex and be = backend_ex and s = idle_dev_ex
      and t = idle_dev_ex and file_lifetime = WLTH_NONE and io_type = kWAL and file_id = 5]
  have id5: "WLTH_NONE < WLTH_SHORT \<and> (5 :: 64 word) = 5" using lo by simp
  from spec5 [THEN conjunct1, THEN mp, OF id5]
  have e5: "effective_lifetime cfg_ex WLTH_NONE 5 = lifetime_begin cfg_ex" .
  note s5 = spec5 [unfolded e5 lb n0]
  have latch5: "zone_deferred_status idle_dev_ex = OK \<and> kWAL = kWAL"
    by (simp add: idle_dev_ex_def dev_ex_def)
  from s5 [THEN conjunct2, THEN conjunct2, THEN conjunct2, THEN conjunct1, THEN mp, OF latch5]
  have c5: "AllocateIOZone cfg_ex backend_ex idle_dev_ex WLTH_NONE kWAL 5 =
      AllocateIOZone_locked cfg_ex idle_dev_ex 3" .
  have rng5: "(0 :: int) \<le> 3 - 3 \<and> 0 < length (level_active_io_zones idle_dev_ex) \<and>
      0 < length (level_zones idle_dev_ex)"
    by (simp add: idle_dev_ex_def)
  have pos: "0 < level_active_io_zones idle_dev_ex ! 0" by (simp add: idle_dev_ex_def)
  have b: "level_zones idle_dev_ex ! 0 = [0, 6]" by (simp add: idle_dev_ex_def)
  have bz: "level_zones idle_dev_ex ! 0 ! 0 = 0" by (simp add: b)
  have i0: "0 < length (level_zones idle_dev_ex ! 0) \<and>
      \<not> useinlevelzone (io_zones idle_dev_ex ! (level_zones idle_dev_ex ! 0 ! 0)) \<and>
      (\<forall>j < 0. useinlevelzone (io_zones idle_dev_ex ! (level_zones idle_dev_ex ! 0 ! j)))"
    unfolding bz by (simp add: idle_dev_ex_def dev_ex_def Zone_new_def)
  have busy0: "busy (io_zones idle_dev_ex ! 0)" by (simp add: idle_dev_ex_def dev_ex_def)
  have la: "level_active_io_zones idle_dev_ex ! 0 - 1 = 1" by (simp add: idle_dev_ex_def)
  note C5 = s5 [THEN conjunct2, THEN conjunct2, THEN conjunct2, THEN conjunct2, THEN conjunct2,
                THEN conjunct2, THEN conjunct2]
  from C5 [THEN mp, OF rng5, THEN conjunct2, THEN conjunct1, THEN mp, OF pos, THEN conjunct1,
           THEN spec, of 0, THEN mp, OF i0]
  have l5: "AllocateIOZone_locked cfg_ex idle_dev_ex 3 =
     Returns (OK, Some 0,
       idle_dev_ex\<lparr>level_active_io_zones := (level_active_io_zones idle_dev_ex)[0 := 1],
         io_zones := (io_zones idle_dev_ex)[0 := (io_zones idle_dev_ex ! 0)\<lparr>useinlevelzone := True\<rparr>]\<rparr>)"
    by (simp only: bz busy0 la if_True)
  from c5 l5 have w5: "AllocateIOZone cfg_ex backend_ex idle_dev_ex WLTH_NONE kWAL 5 =
     Returns (OK, Some 0,
       idle_dev_ex\<lparr>level_active_io_zones := (level_active_io_zones idle_dev_ex)[0 := 1],
         io_zones := (io_zones idle_dev_ex)[0 := (io_zones idle_dev_ex ! 0)\<lparr>useinlevelzone := True\<rparr>]\<rparr>)"
    by (rule trans)
  from e7 w7 m7 e5 b w5 show ?thesis by (intro conjI)
qed

end
